theory Spec2Isabelle
  imports Complex_Main
begin

section \<open>Python and numpy values used by the notebooks\<close>

text \<open>
  The notebooks are Python glue code around numpy, scipy and SimpleITK.  Exceptions are
  values: a computation returns \<open>py_error + 'a\<close>, with \<open>Inl\<close> the raised exception.

  The numbers in numpy arrays are of any type \<open>'a\<close> with \<open>0\<close>, \<open>1\<close>, \<open>+\<close>, \<open>-\<close>, \<open>*\<close> and
  \<open>/\<close>, and nothing is assumed of these operations but that they return: the type may
  be the reals, or IEEE doubles with their infinities and NaN and their overflow.  This
  is numpy's arithmetic on arrays of a numeric dtype (\<open>float64\<close>; \<open>int64\<close> coordinates
  become \<open>float64\<close> in \<open>.mean\<close>), which raises nothing, whatever the values; which
  operations raise is decided by the shapes, and by \<open>scipy.linalg\<close>, which does look at
  the values.  Arrays of Python objects (integers beyond 64 bits, strings), whose
  arithmetic is Python's and can raise, are not covered.
\<close>

datatype py_error = IndexError | ValueError | NameError | RuntimeError | LinAlgError

definition bindE :: "py_error + 'a \<Rightarrow> ('a \<Rightarrow> py_error + 'b) \<Rightarrow> py_error + 'b" where
  "bindE m f = (case m of Inl e \<Rightarrow> Inl e | Inr x \<Rightarrow> f x)"

text \<open>
  A two-dimensional numpy array carries its shape beside its rows, since the shape decides
  which operations raise (a \<open>0 \<times> n\<close> array has no rows but still has \<open>n\<close> columns).
  One-dimensional arrays are plain lists.
\<close>

record 'a ndarray =
  nrows :: nat
  ncols :: nat
  elems :: "'a list list"

text \<open>The sum of a list, and a count as a number of the arrays' type.\<close>

definition np_sum :: "'a::{zero,plus} list \<Rightarrow> 'a" where
  "np_sum xs = foldr (+) xs 0"

primrec of_count :: "nat \<Rightarrow> 'a::{zero,one,plus}" where
  "of_count 0 = 0"
| "of_count (Suc n) = of_count n + 1"

text \<open>
  \<open>np.array(points)\<close> on a list of tuples: a rectangular list gives an
  \<open>n \<times> d\<close> array.  A ragged list gives no two-dimensional array and numpy raises
  \<open>ValueError\<close> (inhomogeneous shape); an empty list gives a one-dimensional array, on
  which the function's next step, \<open>.mean(1)\<close>, raises numpy's \<open>AxisError\<close>, a
  \<open>ValueError\<close>.
\<close>

definition np_array :: "'a list list \<Rightarrow> py_error + 'a ndarray" where
  "np_array pts =
     (case pts of
        [] \<Rightarrow> Inl ValueError
      | p # _ \<Rightarrow>
          if list_all (\<lambda>q. length q = length p) pts
          then Inr \<lparr>nrows = length pts, ncols = length p, elems = pts\<rparr>
          else Inl ValueError)"

definition np_T :: "'a ndarray \<Rightarrow> 'a ndarray" where
  "np_T a = \<lparr>nrows = ncols a, ncols = nrows a,
             elems = map (\<lambda>j. map (\<lambda>r. r ! j) (elems a)) [0..<ncols a]\<rparr>"

text \<open>\<open>a.mean(1)\<close>: the mean of every row.\<close>

definition np_mean1 :: "'a::{zero,one,plus,inverse} ndarray \<Rightarrow> 'a list" where
  "np_mean1 a = map (\<lambda>r. np_sum r / of_count (ncols a)) (elems a)"

text \<open>\<open>np.tile(v, (n, 1))\<close>: \<open>n\<close> copies of the vector \<open>v\<close> as rows.\<close>

definition np_tile :: "'a list \<Rightarrow> nat \<Rightarrow> 'a ndarray" where
  "np_tile v n = \<lparr>nrows = n, ncols = length v, elems = replicate n v\<rparr>"

text \<open>
  numpy broadcasting of one axis: equal lengths, or one of them is 1 and is stretched;
  anything else raises \<open>ValueError\<close> (operands could not be broadcast together).
\<close>

definition broadcast_dim :: "nat \<Rightarrow> nat \<Rightarrow> nat option" where
  "broadcast_dim m n =
     (if m = n then Some m else if m = 1 then Some n else if n = 1 then Some m else None)"

definition bc_at :: "'a ndarray \<Rightarrow> nat \<Rightarrow> nat \<Rightarrow> 'a" where
  "bc_at a i j = elems a ! (if nrows a = 1 then 0 else i) ! (if ncols a = 1 then 0 else j)"

definition np_sub :: "'a::minus ndarray \<Rightarrow> 'a ndarray \<Rightarrow> py_error + 'a ndarray" where
  "np_sub a b =
     (case (broadcast_dim (nrows a) (nrows b), broadcast_dim (ncols a) (ncols b)) of
        (Some r, Some c) \<Rightarrow>
          Inr \<lparr>nrows = r, ncols = c,
               elems = map (\<lambda>i. map (\<lambda>j. bc_at a i j - bc_at b i j) [0..<c]) [0..<r]\<rparr>
      | _ \<Rightarrow> Inl ValueError)"

definition np_sub_vec :: "'a::minus list \<Rightarrow> 'a list \<Rightarrow> py_error + 'a list" where
  "np_sub_vec u v =
     (case broadcast_dim (length u) (length v) of
        Some n \<Rightarrow>
          Inr (map (\<lambda>i. u ! (if length u = 1 then 0 else i) - v ! (if length v = 1 then 0 else i))
                 [0..<n])
      | None \<Rightarrow> Inl ValueError)"

text \<open>
  \<open>a.dot(b)\<close>: the matrix product; numpy raises \<open>ValueError\<close> (shapes not aligned)
  unless the columns of \<open>a\<close> are as many as the rows of \<open>b\<close>.
\<close>

definition np_dot :: "'a::{zero,plus,times} ndarray \<Rightarrow> 'a ndarray \<Rightarrow> py_error + 'a ndarray" where
  "np_dot a b =
     (if ncols a = nrows b
      then Inr \<lparr>nrows = nrows a, ncols = ncols b,
                elems = map (\<lambda>i. map (\<lambda>j. np_sum (map (\<lambda>k. elems a ! i ! k * elems b ! k ! j)
                                                    [0..<ncols a]))
                                  [0..<ncols b]) [0..<nrows a]\<rparr>
      else Inl ValueError)"

definition np_dot_vec :: "'a::{zero,plus,times} ndarray \<Rightarrow> 'a list \<Rightarrow> py_error + 'a list" where
  "np_dot_vec a v =
     (if ncols a = length v
      then Inr (map (\<lambda>i. np_sum (map (\<lambda>k. elems a ! i ! k * v ! k) [0..<ncols a]))
                 [0..<nrows a])
      else Inl ValueError)"

text \<open>\<open>np.diag(v)\<close>: the square matrix with \<open>v\<close> on its diagonal.\<close>

definition np_diag :: "'a::zero list \<Rightarrow> 'a ndarray" where
  "np_diag v = \<lparr>nrows = length v, ncols = length v,
                elems = map (\<lambda>i. map (\<lambda>j. if i = j then v ! i else 0) [0..<length v])
                          [0..<length v]\<rparr>"

text \<open>
  \<open>scipy.linalg\<close> is not part of the repository: its two functions are parameters, and
  both may raise.  \<open>svd m\<close> returns \<open>(U, S, Vt)\<close> or raises: \<open>ValueError\<close> when the
  matrix holds an infinity or a NaN (as after an overflow) or is not an array of floats,
  \<open>LinAlgError\<close> when the computation does not converge.  \<open>det\<close> raises \<open>ValueError\<close>
  (expected square matrix) on a matrix that is not square, before it looks at the
  values, and otherwise returns the determinant or raises as \<open>svd\<close> does.
\<close>

record 'a linalg =
  svd :: "'a ndarray \<Rightarrow> py_error + ('a ndarray \<times> 'a list \<times> 'a ndarray)"
  det :: "'a ndarray \<Rightarrow> py_error + 'a"

definition linalg_det :: "'a linalg \<Rightarrow> 'a ndarray \<Rightarrow> py_error + 'a" where
  "linalg_det lib a = (if nrows a = ncols a then det lib a else Inl ValueError)"

text \<open>
  The shape contract of \<open>scipy.linalg.svd\<close> (full matrices): when it returns for an
  \<open>m \<times> n\<close> input, \<open>U\<close> is \<open>m \<times> m\<close> and \<open>Vt\<close> is \<open>n \<times> n\<close>.
\<close>

definition svd_shapes :: "'a linalg \<Rightarrow> 'a ndarray \<Rightarrow> bool" where
  "svd_shapes lib m =
     (case svd lib m of
        Inl e \<Rightarrow> True
      | Inr (U, S, Vt) \<Rightarrow> nrows U = nrows m \<and> ncols U = nrows m \<and>
                          nrows Vt = ncols m \<and> ncols Vt = ncols m)"

section \<open>absolute\_orientation\_m\<close>

text \<open>
  The function of the timing notebook, statement by statement.  \<open>points_in_left[0]\<close>
  raises \<open>IndexError\<close> on an empty list; the function's own check raises
  \<open>ValueError\<close>; every numpy operation after it raises \<open>ValueError\<close> on a shape
  mismatch; \<open>linalg.svd\<close> and \<open>linalg.det\<close> raise what the library raises.
\<close>

definition absolute_orientation_m ::
    "'a::{zero,one,plus,minus,times,inverse} linalg \<Rightarrow> 'a list list \<Rightarrow> 'a list list
       \<Rightarrow> py_error + ('a ndarray \<times> 'a list)" where
  "absolute_orientation_m lib points_in_left points_in_right =
     (case points_in_left of
        [] \<Rightarrow> Inl IndexError
      | p0 # _ \<Rightarrow>
          let num_points = length points_in_left;
              dim_points = length p0
          in if num_points < dim_points then Inl ValueError
             else
               bindE (np_array points_in_left) (\<lambda>la.
               bindE (np_array points_in_right) (\<lambda>ra.
                 let left_mat = np_T la;
                     right_mat = np_T ra;
                     left_mean = np_mean1 left_mat;
                     right_mean = np_mean1 right_mat
                 in
                 bindE (np_sub left_mat (np_T (np_tile left_mean num_points))) (\<lambda>left_M.
                 bindE (np_sub right_mat (np_T (np_tile right_mean num_points))) (\<lambda>right_M.
                 bindE (np_dot left_M (np_T right_M)) (\<lambda>M.
                 bindE (svd lib M) (\<lambda>(U, S, Vt).
                   let V = np_T Vt in
                   bindE (np_dot U V) (\<lambda>UV.
                   bindE (linalg_det lib UV) (\<lambda>d.
                   bindE (np_dot V (np_diag [1, 1, d])) (\<lambda>VD.
                   bindE (np_dot VD (np_T U)) (\<lambda>R.
                   bindE (np_dot_vec R left_mean) (\<lambda>Rl.
                   bindE (np_sub_vec right_mean Rl) (\<lambda>t.
                     Inr (R, t))))))))))))))"

text \<open>
  The matrix \<open>M\<close> that the function hands to \<open>linalg.svd\<close>, by the same statements: the
  product of the two centred point matrices.
\<close>

definition cross_covariance ::
    "'a::{zero,one,plus,minus,times,inverse} list list \<Rightarrow> 'a list list
       \<Rightarrow> py_error + 'a ndarray" where
  "cross_covariance points_in_left points_in_right =
     (let num_points = length points_in_left in
      bindE (np_array points_in_left) (\<lambda>la.
      bindE (np_array points_in_right) (\<lambda>ra.
        let left_mat = np_T la;
            right_mat = np_T ra;
            left_mean = np_mean1 left_mat;
            right_mean = np_mean1 right_mat
        in
        bindE (np_sub left_mat (np_T (np_tile left_mean num_points))) (\<lambda>left_M.
        bindE (np_sub right_mat (np_T (np_tile right_mean num_points))) (\<lambda>right_M.
          np_dot left_M (np_T right_M))))))"

text \<open>
  A singular value decomposition for real diagonal matrices with a non-negative,
  non-increasing diagonal: \<open>U\<close> and \<open>Vt\<close> are identity matrices and \<open>S\<close> is the diagonal;
  the determinant is that of a triangular matrix, the product of the diagonal (it is only
  asked of \<open>U\<cdot>V\<close>, the identity).  It is the concrete \<open>linalg\<close> at which the function
  is evaluated on inputs with such a cross-covariance matrix.
\<close>

definition np_eye :: "nat \<Rightarrow> real ndarray" where
  "np_eye n = np_diag (replicate n 1)"

definition diag_linalg :: "real linalg" where
  "diag_linalg =
     \<lparr>svd = (\<lambda>m. Inr (np_eye (nrows m),
                       map (\<lambda>i. elems m ! i ! i) [0..<min (nrows m) (ncols m)],
                       np_eye (ncols m))),
      det = (\<lambda>m. Inr (prod_list (map (\<lambda>i. elems m ! i ! i) [0..<nrows m])))\<rparr>"

text \<open>
  Floats that can be NaN, for runs on which \<open>linalg.svd\<close> refuses its argument: a real
  number or NaN.  As in numpy no operation raises, and NaN is contagious; infinities are
  left out, so that a division by zero gives NaN.
\<close>

datatype pyfloat = Finite real | NaN

instantiation pyfloat :: "{zero,one,plus,minus,times,inverse}"
begin

definition zero_pyfloat :: pyfloat where
  "zero_pyfloat = Finite 0"

definition one_pyfloat :: pyfloat where
  "one_pyfloat = Finite 1"

definition plus_pyfloat :: "pyfloat \<Rightarrow> pyfloat \<Rightarrow> pyfloat" where
  "plus_pyfloat a b = (case (a, b) of (Finite x, Finite y) \<Rightarrow> Finite (x + y) | _ \<Rightarrow> NaN)"

definition minus_pyfloat :: "pyfloat \<Rightarrow> pyfloat \<Rightarrow> pyfloat" where
  "minus_pyfloat a b = (case (a, b) of (Finite x, Finite y) \<Rightarrow> Finite (x - y) | _ \<Rightarrow> NaN)"

definition times_pyfloat :: "pyfloat \<Rightarrow> pyfloat \<Rightarrow> pyfloat" where
  "times_pyfloat a b = (case (a, b) of (Finite x, Finite y) \<Rightarrow> Finite (x * y) | _ \<Rightarrow> NaN)"

definition divide_pyfloat :: "pyfloat \<Rightarrow> pyfloat \<Rightarrow> pyfloat" where
  "divide_pyfloat a b =
     (case (a, b) of
        (Finite x, Finite y) \<Rightarrow> if y = 0 then NaN else Finite (x / y)
      | _ \<Rightarrow> NaN)"

definition inverse_pyfloat :: "pyfloat \<Rightarrow> pyfloat" where
  "inverse_pyfloat a = (case a of Finite x \<Rightarrow> if x = 0 then NaN else Finite (1 / x) | NaN \<Rightarrow> NaN)"

instance ..

end

definition is_finite :: "pyfloat \<Rightarrow> bool" where
  "is_finite a = (case a of Finite x \<Rightarrow> True | NaN \<Rightarrow> False)"

text \<open>
  \<open>scipy.linalg\<close> on such floats: \<open>svd\<close> and \<open>det\<close> raise \<open>ValueError\<close> on a matrix with
  a NaN (their finiteness check), and otherwise answer like \<open>diag_linalg\<close>.
\<close>

definition checking_linalg :: "pyfloat linalg" where
  "checking_linalg =
     \<lparr>svd = (\<lambda>m. if list_all (list_all is_finite) (elems m)
                  then Inr (np_diag (replicate (nrows m) 1),
                            map (\<lambda>i. elems m ! i ! i) [0..<min (nrows m) (ncols m)],
                            np_diag (replicate (ncols m) 1))
                  else Inl ValueError),
      det = (\<lambda>m. if list_all (list_all is_finite) (elems m)
                  then Inr (foldr (*) (map (\<lambda>i. elems m ! i ! i) [0..<nrows m]) 1)
                  else Inl ValueError)\<rparr>"

section \<open>SimpleITK objects as the notebooks use them\<close>

text \<open>
  Python variables hold references.  A transform is an object in a store; two variables
  may name the same object, and a method such as \<open>SetMatrix\<close> changes the object for
  every holder of the reference.  New objects get the next unused address.
\<close>

datatype transform_kind = Euler3DTransform | GenericTransform

record transform =
  kind :: transform_kind
  matrix :: "real list"
  translation :: "real list"
  center :: "real list"

type_synonym addr = nat

record py_state =
  objects :: "addr \<rightharpoonup> transform"
  next_addr :: addr
  metric_values :: "real list option"
  multires_iterations :: "nat list option"
  reference_mean_values :: "real list option"
  reference_min_values :: "real list option"
  reference_max_values :: "real list option"

definition new_object :: "transform \<Rightarrow> py_state \<Rightarrow> addr \<times> py_state" where
  "new_object T s =
     (next_addr s, s\<lparr>objects := (objects s)(next_addr s \<mapsto> T), next_addr := Suc (next_addr s)\<rparr>)"

definition update_object :: "addr \<Rightarrow> (transform \<Rightarrow> transform) \<Rightarrow> py_state \<Rightarrow> py_state" where
  "update_object a f s =
     (case objects s a of
        None \<Rightarrow> s
      | Some T \<Rightarrow> s\<lparr>objects := (objects s)(a \<mapsto> f T)\<rparr>)"

text \<open>\<open>transform.SetMatrix(m)\<close> replaces the rotation matrix of the object, in place.\<close>

definition SetMatrix :: "addr \<Rightarrow> real list \<Rightarrow> py_state \<Rightarrow> py_state" where
  "SetMatrix a m s = update_object a (\<lambda>T. T\<lparr>matrix := m\<rparr>) s"

text \<open>
  \<open>sitk.Euler3DTransform()\<close> is the identity, and
  \<open>sitk.CenteredTransformInitializer(fixed, moving, sitk.Euler3DTransform(), GEOMETRY)\<close>
  sets its centre and translation from the geometry of the two images (computed by the
  library: the two vectors are parameters here) and leaves the rotation alone.
\<close>

definition identity_matrix :: "real list" where
  "identity_matrix = [1, 0, 0, 0, 1, 0, 0, 0, 1]"

definition CenteredTransformInitializer :: "real list \<Rightarrow> real list \<Rightarrow> transform" where
  "CenteredTransformInitializer c t =
     \<lparr>kind = Euler3DTransform, matrix = identity_matrix, translation = t, center = c\<rparr>"

text \<open>
  \<open>registration_method.SetInitialTransform(transform, inPlace)\<close>.  The notebooks say what
  the flag does: with \<open>inPlace=False\<close> the method works on a copy ("don't optimize
  in-place, not nice to change user's input"); with the default \<open>inPlace=True\<close> it keeps
  the caller's object ("do the registration in-place so that the initial\_transform is
  modified").  The result is the state and the reference the method holds.
\<close>

definition SetInitialTransform :: "addr \<Rightarrow> bool \<Rightarrow> py_state \<Rightarrow> addr \<times> py_state" where
  "SetInitialTransform a inPlace s =
     (if inPlace then (a, s)
      else (case objects s a of
              None \<Rightarrow> (a, s)
            | Some T \<Rightarrow> new_object T s))"

section \<open>Initialisation over all orientations (MetricEvaluate)\<close>

text \<open>
  The table of the registration-initialisation notebook.  A Python dictionary: its
  iteration order is not fixed by the language, so the loop below takes the items in any
  order.
\<close>

definition possible_orientation_changes :: "(string \<times> real list) list" where
  "possible_orientation_changes =
     [(''x=0, z=90'', [0, -1, 0, 1, 0, 0, 0, 0, 1]),
      (''x=0, z=-90'', [0, 1, 0, -1, 0, 0, 0, 0, 1]),
      (''x=0, z=180'', [-1, 0, 0, 0, -1, 0, 0, 0, 1]),
      (''x=180, z=0'', [1, 0, 0, 0, -1, 0, 0, 0, -1]),
      (''x=180, z=90'', [0, -1, 0, -1, 0, 0, 0, 0, -1]),
      (''x=180, z=-90'', [0, 1, 0, 1, 0, 0, 0, 0, -1]),
      (''x=180, z=180'', [-1, 0, 0, 0, 1, 0, 0, 0, -1])]"

text \<open>
  \<open>registration_method.MetricEvaluate(fixed, moving)\<close> scores the transform the method
  holds.  The metric is the library's, and it samples at random: \<open>metric k T\<close> is the
  value of the \<open>k\<close>-th evaluation, at transform \<open>T\<close>.  The state of the cell: the store,
  the reference held by the registration method, the number of evaluations so far, and
  the two local variables of the search.
\<close>

record search_state =
  store :: py_state
  method_transform :: addr
  evaluations :: nat
  best_similarity_value :: real
  best_orientation :: "real list"

definition MetricEvaluate :: "(nat \<Rightarrow> transform \<Rightarrow> real) \<Rightarrow> search_state \<Rightarrow> real \<times> search_state" where
  "MetricEvaluate metric st =
     (case objects (store st) (method_transform st) of
        None \<Rightarrow> (0, st)
      | Some T \<Rightarrow> (metric (evaluations st) T, st\<lparr>evaluations := Suc (evaluations st)\<rparr>))"

text \<open>One pass of the \<open>for key, orientation in possible_orientation_changes.items()\<close> loop.\<close>

definition orientation_step ::
    "(nat \<Rightarrow> transform \<Rightarrow> real) \<Rightarrow> addr \<Rightarrow> search_state \<Rightarrow> string \<times> real list \<Rightarrow> search_state" where
  "orientation_step metric initial_transform st item =
     (case item of
        (key, orientation) \<Rightarrow>
          let s1 = SetMatrix initial_transform orientation (store st);
              (r, s2) = SetInitialTransform initial_transform True s1;
              (current_similarity_value, st') =
                 MetricEvaluate metric (st\<lparr>store := s2, method_transform := r\<rparr>)
          in if current_similarity_value < best_similarity_value st'
             then st'\<lparr>best_similarity_value := current_similarity_value,
                      best_orientation := orientation\<rparr>
             else st')"

text \<open>
  The whole cell up to the call of \<open>multires_registration\<close>: the result is the state and
  the reference \<open>initial_transform\<close> that the registration is started with.
\<close>

definition initialize_all_orientations ::
    "(nat \<Rightarrow> transform \<Rightarrow> real) \<Rightarrow> real list \<Rightarrow> real list \<Rightarrow> (string \<times> real list) list
       \<Rightarrow> py_state \<Rightarrow> addr \<times> search_state" where
  "initialize_all_orientations metric c t items s0 =
     (let (initial_transform, s1) = new_object (CenteredTransformInitializer c t) s0;
          (r, s2) = SetInitialTransform initial_transform False s1;
          st0 = \<lparr>store = s2, method_transform = r, evaluations = 0,
                 best_similarity_value = 0, best_orientation = identity_matrix\<rparr>;
          (v0, st1) = MetricEvaluate metric st0;
          st2 = st1\<lparr>best_similarity_value := v0\<rparr>;
          st3 = foldl (orientation_step metric initial_transform) st2 items
      in (initial_transform,
          st3\<lparr>store := SetMatrix initial_transform (best_orientation st3) (store st3)\<rparr>))"

text \<open>
  Every candidate the cell evaluates, with the value the metric gave it: the identity
  first, then the items in their order.
\<close>

definition evaluated_candidates ::
    "(nat \<Rightarrow> transform \<Rightarrow> real) \<Rightarrow> real list \<Rightarrow> real list \<Rightarrow> (string \<times> real list) list
       \<Rightarrow> (real list \<times> real) list" where
  "evaluated_candidates metric c t items =
     (identity_matrix, metric 0 (CenteredTransformInitializer c t)) #
     map (\<lambda>(k, (key, orientation)).
            (orientation, metric k ((CenteredTransformInitializer c t)\<lparr>matrix := orientation\<rparr>)))
         (enumerate 1 items)"

definition empty_state :: py_state where
  "empty_state =
     \<lparr>objects = Map.empty, next_addr = 0, metric_values = None, multires_iterations = None,
      reference_mean_values = None, reference_min_values = None, reference_max_values = None\<rparr>"

text \<open>A metric for concrete runs: the sum of the entries of the rotation matrix.\<close>

definition matrix_sum_metric :: "nat \<Rightarrow> transform \<Rightarrow> real" where
  "matrix_sum_metric k T = sum_list (matrix T)"

section \<open>The timing notebook: register\_images and its callbacks\<close>

datatype interpolator = sitkNearestNeighbor | sitkLinear | sitkBSpline

datatype sampling_strategy = NONE | REGULAR | RANDOM

datatype event =
  sitkStartEvent | sitkEndEvent | sitkIterationEvent | sitkMultiResolutionIterationEvent

text \<open>
  The callables given to \<open>AddCommand\<close>, by name; \<open>plot_values\<close> is called through a
  lambda that supplies the two global point lists.
\<close>

datatype command =
  Call_start_plot
| Call_end_plot
| Call_plot_values "real list list" "real list list"

text \<open>
  An \<open>ImageRegistrationMethod\<close>: what \<open>register_images\<close> configures, the reference to
  the transform it optimises, its commands, and what it reports while and after it runs.
\<close>

record registration_method =
  numberOfHistogramBins :: nat
  metricSamplingStrategy :: sampling_strategy
  metricSamplingPercentage :: real
  method_interpolator :: interpolator
  learningRate :: real
  numberOfIterations :: nat
  scalesFromPhysicalShift :: bool
  initial_transform :: addr
  commands :: "(event \<times> command) list"
  metric_value :: real
  optimizer_position :: "real list"
  stop_condition :: string

text \<open>
  The library itself is not part of the repository.  Its numerical work is a parameter:
  \<open>optimize\<close> gives, for the settings, the two images and the starting transform, the
  optimizer's position and metric value after every iteration, and the description of
  the stop condition; the other functions read and write the parameters of a transform,
  compose and invert transforms, and map a point.
\<close>

record 'img sitk =
  optimize :: "registration_method \<Rightarrow> 'img \<Rightarrow> 'img \<Rightarrow> transform \<Rightarrow> (real list \<times> real) list \<times> string"
  GetParameters :: "transform \<Rightarrow> real list"
  SetParameters :: "real list \<Rightarrow> transform \<Rightarrow> transform"
  AddTransform :: "transform \<Rightarrow> transform \<Rightarrow> transform"
  GetInverse :: "transform \<Rightarrow> transform"
  TransformPoint :: "transform \<Rightarrow> real list \<Rightarrow> real list"

definition identity_transform :: transform where
  "identity_transform =
     \<lparr>kind = GenericTransform, matrix = identity_matrix, translation = [0, 0, 0],
      center = [0, 0, 0]\<rparr>"

fun mapE :: "('a \<Rightarrow> py_error + 'b) \<Rightarrow> 'a list \<Rightarrow> py_error + 'b list" where
  "mapE f [] = Inr []"
| "mapE f (x # xs) = bindE (f x) (\<lambda>y. bindE (mapE f xs) (\<lambda>ys. Inr (y # ys)))"

definition linalg_norm :: "real list \<Rightarrow> real" where
  "linalg_norm v = sqrt (\<Sum>x\<leftarrow>v. x\<^sup>2)"

definition np_mean :: "real list \<Rightarrow> real" where
  "np_mean xs = sum_list xs / real (length xs)"

definition np_std :: "real list \<Rightarrow> real" where
  "np_std xs = sqrt (np_mean (map (\<lambda>x. (x - np_mean xs)\<^sup>2) xs))"

text \<open>
  \<open>registration_errors\<close>: the distance of every transformed fixed point from its moving
  point, and their statistics.  Subtracting two points of different dimension raises
  \<open>ValueError\<close>, and so does \<open>np.min\<close> of an empty list.
\<close>

definition registration_errors ::
    "'img sitk \<Rightarrow> transform \<Rightarrow> real list list \<Rightarrow> real list list
       \<Rightarrow> py_error + (real \<times> real \<times> real \<times> real \<times> real list)" where
  "registration_errors lib tx reference_fixed_point_list reference_moving_point_list =
     bindE (mapE (\<lambda>(p_fixed, p_moving).
                    bindE (np_sub_vec (TransformPoint lib tx p_fixed) p_moving)
                      (\<lambda>d. Inr (linalg_norm d)))
              (zip reference_fixed_point_list reference_moving_point_list))
       (\<lambda>errors.
          if errors = [] then Inl ValueError
          else Inr (np_mean errors, np_std errors, Min (set errors), Max (set errors), errors))"

text \<open>
  The callbacks.  Each returns the exception it raises, if any, and the state it leaves.
  Reading or deleting a global that is not defined raises \<open>NameError\<close>.  Drawing the
  plots changes nothing that is modelled.
\<close>

definition start_plot :: "py_state \<Rightarrow> py_error option \<times> py_state" where
  "start_plot s =
     (None, s\<lparr>metric_values := Some [], multires_iterations := Some [],
              reference_mean_values := Some [], reference_min_values := Some [],
              reference_max_values := Some []\<rparr>)"

definition end_plot :: "py_state \<Rightarrow> py_error option \<times> py_state" where
  "end_plot s =
     (if metric_values s = None then (Some NameError, s)
      else let s1 = s\<lparr>metric_values := None\<rparr> in
      if multires_iterations s1 = None then (Some NameError, s1)
      else let s2 = s1\<lparr>multires_iterations := None\<rparr> in
      if reference_mean_values s2 = None then (Some NameError, s2)
      else let s3 = s2\<lparr>reference_mean_values := None\<rparr> in
      if reference_min_values s3 = None then (Some NameError, s3)
      else let s4 = s3\<lparr>reference_min_values := None\<rparr> in
      if reference_max_values s4 = None then (Some NameError, s4)
      else (None, s4\<lparr>reference_max_values := None\<rparr>))"

text \<open>
  \<open>plot_values\<close> builds \<open>current_transform\<close>, a new generic transform copied from the
  method's initial transform, and changes only that new object.
\<close>

definition plot_values ::
    "'img sitk \<Rightarrow> registration_method \<Rightarrow> real list list \<Rightarrow> real list list \<Rightarrow> py_state
       \<Rightarrow> py_error option \<times> py_state" where
  "plot_values lib rm fixed_points moving_points s =
     (case metric_values s of
        None \<Rightarrow> (Some NameError, s)
      | Some mv \<Rightarrow>
          let s1 = s\<lparr>metric_values := Some (mv @ [metric_value rm])\<rparr> in
          (case objects s1 (initial_transform rm) of
             None \<Rightarrow> (Some RuntimeError, s1)
           | Some T \<Rightarrow>
               let (current_transform, s2) = new_object (T\<lparr>kind := GenericTransform\<rparr>) s1;
                   s3 = update_object current_transform
                          (SetParameters lib (optimizer_position rm)) s2;
                   s4 = update_object current_transform
                          (\<lambda>c. AddTransform lib c identity_transform) s3;
                   s5 = update_object current_transform
                          (\<lambda>c. AddTransform lib c (GetInverse lib identity_transform)) s4
               in (case objects s5 current_transform of
                     None \<Rightarrow> (Some RuntimeError, s5)
                   | Some tx \<Rightarrow>
                       (case registration_errors lib tx fixed_points moving_points of
                          Inl e \<Rightarrow> (Some e, s5)
                        | Inr (mean_error, std_error, min_error, max_error, errors) \<Rightarrow>
                            (case reference_mean_values s5 of
                               None \<Rightarrow> (Some NameError, s5)
                             | Some means \<Rightarrow>
                                 let s6 = s5\<lparr>reference_mean_values := Some (means @ [mean_error])\<rparr> in
                                 (case reference_min_values s6 of
                                    None \<Rightarrow> (Some NameError, s6)
                                  | Some mins \<Rightarrow>
                                      let s7 = s6\<lparr>reference_min_values := Some (mins @ [min_error])\<rparr> in
                                      (case reference_max_values s7 of
                                         None \<Rightarrow> (Some NameError, s7)
                                       | Some maxs \<Rightarrow>
                                           (None, s7\<lparr>reference_max_values :=
                                                       Some (maxs @ [max_error])\<rparr>))))))))"

fun run_command ::
    "'img sitk \<Rightarrow> registration_method \<Rightarrow> command \<Rightarrow> py_state \<Rightarrow> py_error option \<times> py_state" where
  "run_command lib rm Call_start_plot s = start_plot s"
| "run_command lib rm Call_end_plot s = end_plot s"
| "run_command lib rm (Call_plot_values fixed_points moving_points) s =
     plot_values lib rm fixed_points moving_points s"

text \<open>An event runs the commands registered for it, in order; an exception ends the run.\<close>

fun fire ::
    "'img sitk \<Rightarrow> registration_method \<Rightarrow> (event \<times> command) list \<Rightarrow> event \<Rightarrow> py_state
       \<Rightarrow> py_error option \<times> py_state" where
  "fire lib rm [] ev s = (None, s)"
| "fire lib rm ((e, c) # cs) ev s =
     (if e = ev
      then (case run_command lib rm c s of
              (Some err, s') \<Rightarrow> (Some err, s')
            | (None, s') \<Rightarrow> fire lib rm cs ev s')
      else fire lib rm cs ev s)"

text \<open>The iterations: the method records each position and metric value and fires the event.\<close>

fun iterate ::
    "'img sitk \<Rightarrow> registration_method \<Rightarrow> (real list \<times> real) list \<Rightarrow> py_state
       \<Rightarrow> py_error option \<times> registration_method \<times> py_state" where
  "iterate lib rm [] s = (None, rm, s)"
| "iterate lib rm ((position, v) # steps) s =
     (let rm' = rm\<lparr>optimizer_position := position, metric_value := v\<rparr> in
      case fire lib rm' (commands rm') sitkIterationEvent s of
        (Some err, s') \<Rightarrow> (Some err, rm', s')
      | (None, s') \<Rightarrow> iterate lib rm' steps s')"

text \<open>
  \<open>registration_method.Execute(fixed, moving)\<close>: the start event, the iterations, the
  optimised parameters written into the transform the method holds, the end event.  The
  result is a reference to that transform.
\<close>

definition Execute ::
    "'img sitk \<Rightarrow> registration_method \<Rightarrow> 'img \<Rightarrow> 'img \<Rightarrow> py_state
       \<Rightarrow> (py_error + addr) \<times> registration_method \<times> py_state" where
  "Execute lib rm fixed_image moving_image s =
     (case objects s (initial_transform rm) of
        None \<Rightarrow> (Inl RuntimeError, rm, s)
      | Some T0 \<Rightarrow>
          let (steps, stop) = optimize lib rm fixed_image moving_image T0;
              rm0 = rm\<lparr>optimizer_position := GetParameters lib T0\<rparr>
          in case fire lib rm0 (commands rm0) sitkStartEvent s of
               (Some err, s1) \<Rightarrow> (Inl err, rm0, s1)
             | (None, s1) \<Rightarrow>
                 (case iterate lib rm0 steps s1 of
                    (Some err, rm2, s2) \<Rightarrow> (Inl err, rm2, s2)
                  | (None, rm2, s2) \<Rightarrow>
                      let s3 = update_object (initial_transform rm2)
                                 (SetParameters lib (optimizer_position rm2)) s2;
                          rm3 = rm2\<lparr>stop_condition := stop\<rparr>
                      in case fire lib rm3 (commands rm3) sitkEndEvent s3 of
                           (Some err, s4) \<Rightarrow> (Inl err, rm3, s4)
                         | (None, s4) \<Rightarrow> (Inr (initial_transform rm3), rm3, s4)))"

definition register_images ::
    "'img sitk \<Rightarrow> real list list \<Rightarrow> real list list \<Rightarrow> 'img \<Rightarrow> 'img \<Rightarrow> addr \<Rightarrow> interpolator
       \<Rightarrow> py_state \<Rightarrow> (py_error + addr \<times> string) \<times> py_state" where
  "register_images lib fixed_points moving_points fixed_image moving_image
       the_initial_transform the_interpolator s =
     (let (r, s1) = SetInitialTransform the_initial_transform False s;
          registration_method =
            \<lparr>numberOfHistogramBins = 50,
             metricSamplingStrategy = REGULAR,
             metricSamplingPercentage = 0.01,
             method_interpolator = the_interpolator,
             learningRate = 1.0,
             numberOfIterations = 1000,
             scalesFromPhysicalShift = True,
             initial_transform = r,
             commands = [(sitkStartEvent, Call_start_plot),
                         (sitkEndEvent, Call_end_plot),
                         (sitkIterationEvent, Call_plot_values fixed_points moving_points)],
             metric_value = 0,
             optimizer_position = [],
             stop_condition = []\<rparr>
      in case Execute lib registration_method fixed_image moving_image s1 of
           (Inl err, rm', s') \<Rightarrow> (Inl err, s')
         | (Inr final_transform, rm', s') \<Rightarrow> (Inr (final_transform, stop_condition rm'), s'))"

text \<open>
  A small library for concrete runs: the optimizer takes two steps, parameters are the
  translation, a point is shifted by the translation.
\<close>

definition toy_sitk :: "unit sitk" where
  "toy_sitk =
     \<lparr>optimize = (\<lambda>rm f m T. ([([1, 0, 0], -1), ([2, 0, 0], -2)], ''Maximum number of iterations'')),
      GetParameters = translation,
      SetParameters = (\<lambda>p T. T\<lparr>translation := p\<rparr>),
      AddTransform = (\<lambda>T U. T),
      GetInverse = (\<lambda>T. T),
      TransformPoint = (\<lambda>T p. map (\<lambda>(x, y). x + y) (zip p (translation T)))\<rparr>"

definition one_transform_state :: py_state where
  "one_transform_state =
     empty_state\<lparr>objects := [0 \<mapsto> CenteredTransformInitializer [0, 0, 0] [0, 0, 0]],
                 next_addr := 1\<rparr>"

section \<open>The registration engine of the specification: images and resampling\<close>

text \<open>
  The notebooks call SimpleITK for everything numerical: the repository holds no
  resampler, transform, optimizer or multi-resolution driver.  The definitions of this and
  the following sections are therefore written from the specification's description of
  that engine, and each says so.
\<close>

text \<open>
  Modelled from the spec: the errors of the engine's taxonomy that are raised to the
  caller (no error type is defined in the repository).
\<close>

datatype engine_error = DomainError | InterpolatorError | ConfigurationError

text \<open>
  Modelled from the spec: the Image of the data model (no image type is defined in the
  repository).  Per-axis voxel counts, origin, spacing, direction matrix (rows) and the
  dense buffer; the documented buffer order is: the first axis varies fastest.
\<close>

record grid =
  counts :: "nat list"
  origin :: "real list"
  spacing :: "real list"
  direction :: "real list list"

record image = grid +
  buffer :: "real list"

text \<open>
  Modelled from the spec: the invariant of an Image, "buffer length equals product of
  voxel counts" (one component per pixel), with geometry of the image's dimension.
\<close>

definition valid_image :: "image \<Rightarrow> bool" where
  "valid_image img \<longleftrightarrow>
     length (buffer img) = prod_list (counts img) \<and>
     length (origin img) = length (counts img) \<and>
     length (spacing img) = length (counts img) \<and>
     length (direction img) = length (counts img)"

text \<open>Modelled from the spec: the position of a voxel in the buffer, first axis fastest.\<close>

fun offset :: "nat list \<Rightarrow> nat list \<Rightarrow> nat" where
  "offset (n # ns) (i # ids) = i + n * offset ns ids"
| "offset _ _ = 0"

text \<open>
  Modelled from the spec: reading a voxel by an integer index; there is a value only if the
  index has the image's dimension and lies inside the voxel counts on every axis.
\<close>

definition voxel_at :: "image \<Rightarrow> int list \<Rightarrow> real option" where
  "voxel_at img idx =
     (if list_all2 (\<lambda>i n. 0 \<le> i \<and> i < int n) idx (counts img)
      then Some (buffer img ! offset (counts img) (map nat idx))
      else None)"

text \<open>Modelled from the spec: all voxel indices of a grid, in buffer order.\<close>

fun all_indices :: "nat list \<Rightarrow> nat list list" where
  "all_indices [] = [[]]"
| "all_indices (n # ns) = concat (map (\<lambda>rest. map (\<lambda>i. i # rest) [0..<n]) (all_indices ns))"

text \<open>Modelled from the spec: a matrix, as the list of its rows, applied to a vector.\<close>

definition mat_vec :: "real list list \<Rightarrow> real list \<Rightarrow> real list" where
  "mat_vec m v = map (\<lambda>row. \<Sum>(a, x)\<leftarrow>zip row v. a * x) m"

text \<open>
  Modelled from the spec: the physical geometry of an Image.  The origin is the physical
  coordinate of voxel \<open>(0, \<dots>, 0)\<close>, the spacing the distance between voxel centres, and
  the orthonormal direction matrix maps index axes to physical axes; its inverse is its
  transpose.
\<close>

definition index_to_physical :: "'a grid_scheme \<Rightarrow> real list \<Rightarrow> real list" where
  "index_to_physical g idx =
     map2 (+) (origin g) (mat_vec (direction g) (map2 (*) (spacing g) idx))"

text \<open>
  Modelled from the spec: the inverse mapping, from a physical point to the continuous
  index of the image, by the transpose of the direction matrix.
\<close>

definition physical_to_continuous_index :: "'a grid_scheme \<Rightarrow> real list \<Rightarrow> real list" where
  "physical_to_continuous_index g p =
     map2 (\<lambda>x sp. x / sp) (mat_vec (transpose (direction g)) (map2 (-) p (origin g))) (spacing g)"

text \<open>Modelled from the spec: "define round-half-away-from-zero for determinism".\<close>

definition round_half_away :: "real \<Rightarrow> int" where
  "round_half_away x = (if 0 \<le> x then \<lfloor>x + 1 / 2\<rfloor> else \<lceil>x - 1 / 2\<rceil>)"

text \<open>
  Modelled from the spec: "Out-of-range physical points (continuous index outside
  [0, size-1] per axis, with configurable tolerance) yield the default fill value."
\<close>

definition inside_domain :: "real \<Rightarrow> image \<Rightarrow> real list \<Rightarrow> bool" where
  "inside_domain tol img ci =
     list_all2 (\<lambda>x n. - tol \<le> x \<and> x \<le> real n - 1 + tol) ci (counts img)"

text \<open>
  Modelled from the spec: "Nearest-neighbor: pick the source voxel whose index is the
  rounded continuous index of the mapped point".  A point that is out of range, or that
  the tolerance lets round to an index without a voxel, yields the default value.
\<close>

definition interpolate_nearest :: "real \<Rightarrow> real \<Rightarrow> image \<Rightarrow> real list \<Rightarrow> real" where
  "interpolate_nearest tol default_value img ci =
     (if inside_domain tol img ci
      then (case voxel_at img (map round_half_away ci) of
              Some v \<Rightarrow> v
            | None \<Rightarrow> default_value)
      else default_value)"

text \<open>
  Modelled from the spec: "Linear: (multi-linear) weighted average of the 2^dimension
  surrounding voxels".  The recursion runs over the axes, last axis first; a neighbour
  with weight zero is not read.
\<close>

fun linear_weights :: "image \<Rightarrow> real \<Rightarrow> real list \<Rightarrow> int list \<Rightarrow> real" where
  "linear_weights img default_value [] idx =
     (case voxel_at img idx of Some v \<Rightarrow> v | None \<Rightarrow> default_value)"
| "linear_weights img default_value (x # xs) idx =
     (let w = x - of_int \<lfloor>x\<rfloor> in
      if w = 0 then linear_weights img default_value xs (\<lfloor>x\<rfloor> # idx)
      else (1 - w) * linear_weights img default_value xs (\<lfloor>x\<rfloor> # idx)
           + w * linear_weights img default_value xs ((\<lfloor>x\<rfloor> + 1) # idx))"

text \<open>
  Modelled from the spec: linear interpolation at a continuous index, with the default
  value for out-of-range points.
\<close>

definition interpolate_linear :: "real \<Rightarrow> real \<Rightarrow> image \<Rightarrow> real list \<Rightarrow> real" where
  "interpolate_linear tol default_value img ci =
     (if inside_domain tol img ci then linear_weights img default_value (rev ci) []
      else default_value)"

text \<open>
  Modelled from the spec: the interpolation kernels.  The cubic B-spline kernel needs the
  spline coefficients of the source image, and the specification does not say how its
  filtering pass treats the image border; it is not modelled.
\<close>

datatype kernel = Nearest | Linear

text \<open>
  Modelled from the spec: the Resampler's contract.  "Given a source Image, a target
  sampling grid, a Transform mapping target-grid physical points to source-image physical
  points, an interpolation kernel, and a default value for out-of-bounds samples, produce
  a new Image on the target grid whose value at each voxel is the interpolated source
  value at the transformed physical location"; it "fails with DomainError if source image
  has zero voxels in any axis".
\<close>

definition resample ::
    "kernel \<Rightarrow> real \<Rightarrow> real \<Rightarrow> image \<Rightarrow> grid \<Rightarrow> (real list \<Rightarrow> real list) \<Rightarrow> engine_error + image" where
  "resample k tol default_value src target T =
     (if 0 \<in> set (counts src) then Inl DomainError
      else
        Inr \<lparr>counts = counts target, origin = origin target, spacing = spacing target,
             direction = direction target,
             buffer =
               map (\<lambda>idx.
                      let ci = physical_to_continuous_index src
                                 (T (index_to_physical target (map real idx)))
                      in case k of
                           Nearest \<Rightarrow> interpolate_nearest tol default_value src ci
                         | Linear \<Rightarrow> interpolate_linear tol default_value src ci)
                   (all_indices (counts target))\<rparr>)"

text \<open>A binary image of two voxels on a line, and a grid that samples it half-way.\<close>

definition two_voxels :: image where
  "two_voxels = \<lparr>counts = [2], origin = [0], spacing = [1], direction = [[1]], buffer = [0, 1]\<rparr>"

definition half_way_grid :: grid where
  "half_way_grid = \<lparr>counts = [3], origin = [0], spacing = [1 / 2], direction = [[1]]\<rparr>"

section \<open>The registration engine of the specification: rigid transform\<close>

text \<open>
  Modelled from the spec: points and vectors of physical space, and \<open>3 \<times> 3\<close> matrices
  as triples of rows, with their arithmetic.
\<close>

type_synonym vec3 = "real \<times> real \<times> real"

type_synonym mat3 = "vec3 \<times> vec3 \<times> vec3"

definition vadd :: "vec3 \<Rightarrow> vec3 \<Rightarrow> vec3" where
  "vadd p q = (case p of (x, y, z) \<Rightarrow> case q of (u, v, w) \<Rightarrow> (x + u, y + v, z + w))"

definition vsub :: "vec3 \<Rightarrow> vec3 \<Rightarrow> vec3" where
  "vsub p q = (case p of (x, y, z) \<Rightarrow> case q of (u, v, w) \<Rightarrow> (x - u, y - v, z - w))"

definition dot3 :: "vec3 \<Rightarrow> vec3 \<Rightarrow> real" where
  "dot3 p q = (case p of (x, y, z) \<Rightarrow> case q of (u, v, w) \<Rightarrow> x * u + y * v + z * w)"

definition mat_vec3 :: "mat3 \<Rightarrow> vec3 \<Rightarrow> vec3" where
  "mat_vec3 m p = (case m of (r1, r2, r3) \<Rightarrow> (dot3 r1 p, dot3 r2 p, dot3 r3 p))"

definition columns3 :: "mat3 \<Rightarrow> mat3" where
  "columns3 m =
     (case m of ((a, b, c), (d, e, f), (g, h, i)) \<Rightarrow> ((a, d, g), (b, e, h), (c, f, i)))"

definition mat_mul3 :: "mat3 \<Rightarrow> mat3 \<Rightarrow> mat3" where
  "mat_mul3 m n =
     (case m of (r1, r2, r3) \<Rightarrow> case columns3 n of (c1, c2, c3) \<Rightarrow>
        ((dot3 r1 c1, dot3 r1 c2, dot3 r1 c3),
         (dot3 r2 c1, dot3 r2 c2, dot3 r2 c3),
         (dot3 r3 c1, dot3 r3 c2, dot3 r3 c3)))"

text \<open>
  Modelled from the spec: the Rigid Transform (the repository has no transform class; it
  uses SimpleITK's).  "3 Euler angles (fixed axis order, document as X then Y then Z,
  extrinsic) and 3 translation components", and a centre of rotation.
\<close>

record rigid_transform =
  rigid_angles :: vec3
  rigid_translation :: vec3
  rigid_center :: vec3

text \<open>Modelled from the spec: \<open>get_parameters() -> vector\<close>, 3 rotation + 3 translation.\<close>

definition get_parameters :: "rigid_transform \<Rightarrow> real list" where
  "get_parameters T =
     (case rigid_angles T of (ax, ay, az) \<Rightarrow>
      case rigid_translation T of (tx, ty, tz) \<Rightarrow> [ax, ay, az, tx, ty, tz])"

text \<open>
  Modelled from the spec: \<open>set_parameters(vector)\<close>; "parameter vector length matches the
  transform's declared degrees of freedom", so a vector of another length is refused.
\<close>

definition set_parameters :: "real list \<Rightarrow> rigid_transform \<Rightarrow> rigid_transform option" where
  "set_parameters v T =
     (case v of
        [ax, ay, az, tx, ty, tz] \<Rightarrow>
          Some (T\<lparr>rigid_angles := (ax, ay, az), rigid_translation := (tx, ty, tz)\<rparr>)
      | _ \<Rightarrow> None)"

text \<open>
  Modelled from the spec: the rotations about the fixed coordinate axes, each given by
  what it does to the coordinates of a point; here the rotation about the fixed X axis.
\<close>

definition rotate_x :: "real \<Rightarrow> vec3 \<Rightarrow> vec3" where
  "rotate_x a p = (case p of (x, y, z) \<Rightarrow> (x, cos a * y - sin a * z, sin a * y + cos a * z))"

text \<open>Modelled from the spec: the rotation about the fixed Y axis.\<close>

definition rotate_y :: "real \<Rightarrow> vec3 \<Rightarrow> vec3" where
  "rotate_y a p = (case p of (x, y, z) \<Rightarrow> (cos a * x + sin a * z, y, cos a * z - sin a * x))"

text \<open>Modelled from the spec: the rotation about the fixed Z axis.\<close>

definition rotate_z :: "real \<Rightarrow> vec3 \<Rightarrow> vec3" where
  "rotate_z a p = (case p of (x, y, z) \<Rightarrow> (cos a * x - sin a * y, sin a * x + cos a * y, z))"

text \<open>
  Modelled from the spec: \<open>transform_point(p) -> p'\<close>.  Extrinsic rotation in the order X,
  Y, Z, "applied about the declared center": the point is taken relative to the centre,
  turned about the fixed X axis, then the fixed Y axis, then the fixed Z axis, moved back,
  and translated.
\<close>

definition transform_point :: "rigid_transform \<Rightarrow> vec3 \<Rightarrow> vec3" where
  "transform_point T p =
     (case rigid_angles T of (ax, ay, az) \<Rightarrow>
        vadd (vadd (rotate_z az (rotate_y ay (rotate_x ax (vsub p (rigid_center T)))))
                (rigid_center T))
          (rigid_translation T))"

text \<open>
  Modelled from the spec: the elementary rotation matrices, for the matrix \<open>R(angles)\<close>
  of the formula \<open>p' = R(angles)\<cdot>(p - center) + center + translation\<close>.
\<close>

definition Rx :: "real \<Rightarrow> mat3" where
  "Rx a = ((1, 0, 0), (0, cos a, - sin a), (0, sin a, cos a))"

definition Ry :: "real \<Rightarrow> mat3" where
  "Ry a = ((cos a, 0, sin a), (0, 1, 0), (- sin a, 0, cos a))"

definition Rz :: "real \<Rightarrow> mat3" where
  "Rz a = ((cos a, - sin a, 0), (sin a, cos a, 0), (0, 0, 1))"

text \<open>
  Modelled from the spec: \<open>R(angles)\<close>, the product of the three elementary rotation
  matrices with the X rotation acting first (extrinsic, X then Y then Z).
\<close>

definition euler_matrix :: "vec3 \<Rightarrow> mat3" where
  "euler_matrix angles =
     (case angles of (ax, ay, az) \<Rightarrow> mat_mul3 (Rz az) (mat_mul3 (Ry ay) (Rx ax)))"

text \<open>A rigid transform for concrete runs: a quarter turn about Z around \<open>(1, 0, 0)\<close>, then up by 1.\<close>

definition quarter_turn :: rigid_transform where
  "quarter_turn =
     \<lparr>rigid_angles = (0, 0, pi / 2), rigid_translation = (0, 0, 1), rigid_center = (1, 0, 0)\<rparr>"

section \<open>The registration engine of the specification: optimizer\<close>

text \<open>
  Modelled from the spec: the stop conditions of the Optimizer's state machine
  \<open>Init -> Iterating -> {Converged, MaxIterationsReached, LineSearchFailed}\<close>, of its
  failure semantics (\<open>Diverged\<close>, "not an exception") and of the cooperative cancellation of
  the concurrency model.  There is no line search in the update rule, so
  \<open>LineSearchFailed\<close> is never reported.
\<close>

datatype stop_kind = Converged | MaxIterationsReached | LineSearchFailed | Diverged | Cancelled

text \<open>
  Modelled from the spec: the configuration of the gradient descent: learning rate,
  maximum iteration count, convergence tolerance and the number of consecutive iterations
  it applies to, and the tolerance on the scaled gradient magnitude.
\<close>

record optimizer_config =
  learning_rate :: real
  max_iterations :: nat
  convergence_tolerance :: real
  convergence_window :: nat
  gradient_tolerance :: real

text \<open>
  Modelled from the spec: the gradient the Metric hands to the Optimizer, one partial
  derivative per parameter index, or the outcome "numerical overflow/NaN gradient" of the
  failure semantics.
\<close>

datatype gradient = Gradient "nat \<Rightarrow> real" | Not_finite

text \<open>
  Modelled from the spec: the Optimizer State, "current parameter vector, per-parameter
  scale factors, iteration counter, \<dots> and value history": the scale of the parameter
  with index \<open>k\<close> is \<open>scales st k\<close>, the gradient is the one at the current parameters, and
  the history holds the metric values of all states so far, the current one first.
\<close>

record optimizer_state =
  params :: "real list"
  scales :: "nat \<Rightarrow> real"
  iteration :: nat
  current_gradient :: gradient
  value_history :: "real list"

text \<open>Modelled from the spec: the metric value at the current parameters.\<close>

definition current_value :: "optimizer_state \<Rightarrow> real" where
  "current_value st = hd (value_history st)"

text \<open>
  Modelled from the spec: the interface of the Metric to the Optimizer.  The Metric itself
  is a parameter: at the \<open>k\<close>-th iteration and a parameter vector it gives the value and
  the gradient (the sample set may be drawn anew at every evaluation).
\<close>

type_synonym metric_fn = "nat \<Rightarrow> real list \<Rightarrow> real \<times> gradient"

text \<open>Modelled from the spec: the optimizer state at \<open>Init\<close>, evaluated at the seed.\<close>

definition init_optimizer :: "metric_fn \<Rightarrow> real list \<Rightarrow> (nat \<Rightarrow> real) \<Rightarrow> optimizer_state" where
  "init_optimizer metric p sc =
     (case metric 0 p of
        (v, g) \<Rightarrow> \<lparr>params = p, scales = sc, iteration = 0, current_gradient = g,
                    value_history = [v]\<rparr>)"

text \<open>Modelled from the spec: "(a) iteration count reaches configured maximum".\<close>

definition reached_maximum :: "optimizer_config \<Rightarrow> optimizer_state \<Rightarrow> bool" where
  "reached_maximum cfg st \<longleftrightarrow> max_iterations cfg \<le> iteration st"

text \<open>
  Modelled from the spec: "(b) metric value fails to improve beyond a convergence
  tolerance for a configured number of consecutive iterations": each of the last
  \<open>convergence_window\<close> iterations lowered the value of the iteration before it by no more
  than the tolerance (lower values are better).
\<close>

definition failed_to_improve :: "optimizer_config \<Rightarrow> optimizer_state \<Rightarrow> bool" where
  "failed_to_improve cfg st \<longleftrightarrow>
     convergence_window cfg < length (value_history st)
     \<and> list_all (\<lambda>j. \<not> convergence_tolerance cfg
                         < value_history st ! Suc j - value_history st ! j)
         [0..<convergence_window cfg]"

text \<open>
  Modelled from the spec: the "gradient magnitude (scaled)": the Euclidean norm of the
  gradient with every component multiplied by its parameter's scale.
\<close>

definition scaled_gradient_magnitude :: "optimizer_state \<Rightarrow> (nat \<Rightarrow> real) \<Rightarrow> real" where
  "scaled_gradient_magnitude st g =
     sqrt (\<Sum>k\<leftarrow>[0..<length (params st)]. (scales st k * g k)\<^sup>2)"

text \<open>Modelled from the spec: "(c) gradient magnitude (scaled) falls below a tolerance".\<close>

definition gradient_below_tolerance :: "optimizer_config \<Rightarrow> optimizer_state \<Rightarrow> bool" where
  "gradient_below_tolerance cfg st \<longleftrightarrow>
     (case current_gradient st of
        Gradient g \<Rightarrow> scaled_gradient_magnitude st g < gradient_tolerance cfg
      | Not_finite \<Rightarrow> False)"

text \<open>
  Modelled from the spec: "numerical overflow/NaN gradient is a non-fatal stop condition
  (\<open>Diverged\<close>), not a crash".
\<close>

definition diverged :: "optimizer_state \<Rightarrow> bool" where
  "diverged st \<longleftrightarrow> current_gradient st = Not_finite"

text \<open>
  Modelled from the spec: "Iterate until: (a) \<dots>, (b) \<dots>, or (c) \<dots>", with the stop of
  the failure semantics and the check of the cancellation flag "between iterations":
  \<open>cancel k\<close> tells whether cancellation has been requested when the flag is read after
  \<open>k\<close> iterations.
\<close>

definition should_stop :: "optimizer_config \<Rightarrow> (nat \<Rightarrow> bool) \<Rightarrow> optimizer_state \<Rightarrow> bool" where
  "should_stop cfg cancel st \<longleftrightarrow>
     reached_maximum cfg st \<or> failed_to_improve cfg st \<or> gradient_below_tolerance cfg st
     \<or> diverged st \<or> cancel (iteration st)"

text \<open>
  Modelled from the spec: "Update rule: params -= learningRate * scale * gradient",
  parameter by parameter.
\<close>

definition update_params :: "optimizer_config \<Rightarrow> optimizer_state \<Rightarrow> (nat \<Rightarrow> real) \<Rightarrow> real list" where
  "update_params cfg st g =
     map (\<lambda>k. params st ! k - learning_rate cfg * scales st k * g k)
       [0..<length (params st)]"

text \<open>
  Modelled from the spec: one iteration.  The parameters move by the update rule, the
  Metric scores the new parameters, and the new value enters the history.  A state whose
  gradient is not finite is left as it is (the optimizer has stopped there).
\<close>

definition optimizer_step ::
    "optimizer_config \<Rightarrow> metric_fn \<Rightarrow> optimizer_state \<Rightarrow> optimizer_state" where
  "optimizer_step cfg metric st =
     (case current_gradient st of
        Not_finite \<Rightarrow> st
      | Gradient g \<Rightarrow>
          (let p' = update_params cfg st g;
               k = Suc (iteration st)
           in case metric k p' of
                (v, g') \<Rightarrow>
                  st\<lparr>params := p', iteration := k, current_gradient := g',
                     value_history := v # value_history st\<rparr>))"

text \<open>
  Modelled from the spec: the state \<open>Iterating\<close>: the states the optimizer goes through,
  from the given one to the one it stops in.
\<close>

function optimizer_trace ::
    "optimizer_config \<Rightarrow> (nat \<Rightarrow> bool) \<Rightarrow> metric_fn \<Rightarrow> optimizer_state
       \<Rightarrow> optimizer_state list" where
  "optimizer_trace cfg cancel metric st =
     (if should_stop cfg cancel st then [st]
      else st # optimizer_trace cfg cancel metric (optimizer_step cfg metric st))"
  by pat_completeness auto
termination
  by (relation "measure (\<lambda>(cfg, cancel, metric, st). max_iterations cfg - iteration st)")
     (auto simp: should_stop_def reached_maximum_def diverged_def optimizer_step_def Let_def
           split: prod.splits gradient.splits)

declare optimizer_trace.simps [simp del]



text \<open>
  Metrics and configurations for concrete runs: the sum of the squares of the parameters
  with its gradient; a metric whose value never changes and whose gradient is 1 in every
  direction; a metric whose gradient is not a finite number.  No cancellation is
  \<open>never\<close>; \<open>after_one\<close> finds the flag set when it is read after the first iteration.
\<close>

definition square_metric :: metric_fn where
  "square_metric k p = (\<Sum>x\<leftarrow>p. x\<^sup>2, Gradient (\<lambda>i. 2 * p ! i))"

definition flat_metric :: metric_fn where
  "flat_metric k p = (0, Gradient (\<lambda>i. 1))"

definition nan_metric :: metric_fn where
  "nan_metric k p = (0, Not_finite)"

definition never :: "nat \<Rightarrow> bool" where
  "never k \<longleftrightarrow> False"

definition after_one :: "nat \<Rightarrow> bool" where
  "after_one k \<longleftrightarrow> k = 1"

definition unit_scales :: "nat \<Rightarrow> real" where
  "unit_scales k = 1"

definition toy_optimizer_config :: optimizer_config where
  "toy_optimizer_config =
     \<lparr>learning_rate = 1 / 4, max_iterations = 2, convergence_tolerance = 0,
      convergence_window = 5, gradient_tolerance = 0\<rparr>"

definition patient_config :: optimizer_config where
  "patient_config =
     \<lparr>learning_rate = 1 / 4, max_iterations = 5, convergence_tolerance = 0,
      convergence_window = 1, gradient_tolerance = 1 / 2\<rparr>"

section \<open>The registration engine of the specification: multi-resolution driver\<close>

text \<open>
  Modelled from the spec: the Pyramid Level Descriptor, shrink factor and smoothing sigma
  (one shrink factor for all axes, as the notebooks configure it).
\<close>

record level_descriptor =
  shrink_factor :: nat
  smoothing_sigma :: real




text \<open>
  Modelled from the spec: "the Driver checks a cancellation flag between iterations and
  between levels".  The flag is set from outside, so what the Driver reads is a
  parameter: \<open>cancel (Between_iterations i k)\<close> tells whether cancellation has been
  requested when the flag is read at level \<open>i\<close> after \<open>k\<close> iterations, and
  \<open>cancel (Between_levels i)\<close> when it is read after level \<open>i\<close>.
\<close>

datatype checkpoint = Between_iterations nat nat | Between_levels nat

text \<open>
  Modelled from the spec: what the Driver does at one level, as a record of the run: the
  level's index and descriptor, the parameters the optimizer was seeded with, the states
  the optimizer went through and why it stopped.
\<close>

record level_run =
  level_index :: nat
  descriptor :: level_descriptor
  seed :: "real list"
  states :: "optimizer_state list"
  stop :: stop_kind










text \<open>
  Modelled from the spec: whether the Driver, at the levels it has run, found
  cancellation requested: between the iterations of its last level, or after it.
\<close>

definition cancellation_seen :: "(checkpoint \<Rightarrow> bool) \<Rightarrow> level_run list \<Rightarrow> bool" where
  "cancellation_seen cancel runs \<longleftrightarrow>
     stop (last runs) = Cancelled \<or> cancel (Between_levels (level_index (last runs)))"







section \<open>Auxiliary notions for the proofs\<close>

text \<open>
  The candidates the loop evaluates from its \<open>k\<close>-th evaluation on, with the values the
  metric gives them.
\<close>

definition loop_candidates ::
    "(nat \<Rightarrow> transform \<Rightarrow> real) \<Rightarrow> transform \<Rightarrow> nat \<Rightarrow> (string \<times> real list) list
       \<Rightarrow> (real list \<times> real) list" where
  "loop_candidates metric T k items =
     map (\<lambda>(k, (key, orientation)). (orientation, metric k (T\<lparr>matrix := orientation\<rparr>)))
       (enumerate k items)"

text \<open>The object at address \<open>a\<close> is the same in both states, and no address was given back.\<close>

definition unchanged :: "addr \<Rightarrow> py_state \<Rightarrow> py_state \<Rightarrow> bool" where
  "unchanged a s s' \<longleftrightarrow> objects s' a = objects s a \<and> next_addr s \<le> next_addr s'"

text \<open>A method that works in place on the object at address 0 and has no commands.\<close>

definition in_place_method :: registration_method where
  "in_place_method =
     \<lparr>numberOfHistogramBins = 50, metricSamplingStrategy = RANDOM,
      metricSamplingPercentage = 0.01, method_interpolator = sitkLinear, learningRate = 1.0,
      numberOfIterations = 100, scalesFromPhysicalShift = True, initial_transform = 0,
      commands = [], metric_value = 0, optimizer_position = [], stop_condition = []\<rparr>"

section \<open>Shapes of the numpy operations\<close>

lemma shapes_np_T [simp]: "nrows (np_T a) = ncols a" "ncols (np_T a) = nrows a"
  by (simp_all add: np_T_def)

lemma shapes_np_tile [simp]: "nrows (np_tile v n) = n" "ncols (np_tile v n) = length v"
  by (simp_all add: np_tile_def)

lemma length_np_mean1 [simp]: "length (np_mean1 a) = length (elems a)"
  by (simp add: np_mean1_def)

lemma length_elems_np_T [simp]: "length (elems (np_T a)) = ncols a"
  by (simp add: np_T_def)

lemma np_array_rect:
  assumes "pts \<noteq> []" "list_all (\<lambda>p. length p = d) pts"
  shows "\<exists>a. np_array pts = Inr a \<and> nrows a = length pts \<and> ncols a = d \<and> elems a = pts"
  using assms by (cases pts) (auto simp: np_array_def list_all_iff)

lemma np_sub_same:
  assumes "nrows a = nrows b" "ncols a = ncols b"
  shows "\<exists>c. np_sub a b = Inr c \<and> nrows c = nrows a \<and> ncols c = ncols a"
  using assms by (simp add: np_sub_def broadcast_dim_def)

lemma np_dot_ok:
  assumes "ncols a = nrows b"
  shows "\<exists>c. np_dot a b = Inr c \<and> nrows c = nrows a \<and> ncols c = ncols b"
  using assms by (simp add: np_dot_def)

lemma svd_shapes_diag_linalg: "svd_shapes diag_linalg m"
  by (simp add: svd_shapes_def diag_linalg_def np_eye_def np_diag_def)

lemma svd_shapes_checking_linalg: "svd_shapes checking_linalg m"
  by (simp add: svd_shapes_def checking_linalg_def np_diag_def)

lemma of_count_real [simp]: "(of_count n :: real) = real n"
  by (induction n) simp_all

section \<open>C9: when absolute\_orientation\_m raises\<close>

text \<open>
  C9 as stated fails.  The claim says that for every non-empty pair of point lists the
  function raises \<open>ValueError\<close> exactly when there are fewer point pairs than the points
  have dimensions, and returns \<open>(R, t)\<close> otherwise.  Two inputs that pass the function's own
  check and still raise \<open>ValueError\<close>: two pairs of 2-D points (the body multiplies the
  \<open>2 \<times> 2\<close> matrix \<open>V\<close> with the \<open>3 \<times> 3\<close> matrix \<open>np.diag((1,1,det))\<close>), and three
  3-D points on the left against four on the right (the centred right matrix cannot be
  formed).  In the first input the cross-covariance matrix is \<open>diag(1/2, 0)\<close>, for which
  \<open>diag_linalg\<close> is a singular value decomposition; the second never reaches \<open>svd\<close>.
\<close>

theorem absolute_orientation_m_raises_counterexample:
  "absolute_orientation_m diag_linalg [[0, 0], [1, 0]] [[0, 0], [1, 0]] = Inl ValueError
   \<and> \<not> length [[0, 0], [1, 0::real]] < length [0, 0::real]
   \<and> absolute_orientation_m diag_linalg [[0, 0, 0], [1, 0, 0], [0, 1, 0]]
         [[0, 0, 0], [1, 0, 0], [0, 1, 0], [0, 0, 1]] = Inl ValueError
   \<and> \<not> length [[0, 0, 0], [1, 0, 0], [0, 1, 0::real]] < length [0, 0, 0::real]"
  by (simp add: absolute_orientation_m_def bindE_def np_array_def np_T_def np_mean1_def
        np_tile_def np_sub_def broadcast_dim_def np_dot_def diag_linalg_def np_eye_def
        np_diag_def linalg_det_def Let_def np_sum_def)

text \<open>
  C9, amended: for non-empty lists of 3-D points, with as many points on the right as on
  the left, \<open>absolute_orientation_m\<close> raises \<open>ValueError\<close> at its own check when there are
  fewer than three point pairs.  With three or more pairs it passes that check and every
  shape check of numpy, and reaches \<open>linalg.svd\<close> with the \<open>3 \<times> 3\<close> cross-covariance
  matrix; from there it returns a pair \<open>(R, t)\<close> when \<open>linalg.svd\<close> and \<open>linalg.det\<close>
  return, and raises their exception when one of them raises (scipy's \<open>svd\<close> raises
  \<open>ValueError\<close> on a matrix with an entry that is not a finite number, and \<open>LinAlgError\<close>
  when the computation does not converge).  The coordinates are numbers of a numeric
  dtype of numpy, with any arithmetic that returns, and \<open>lib\<close> is any pair of functions
  that keeps the shape contract of \<open>scipy.linalg.svd\<close>.
\<close>

theorem absolute_orientation_m_3d:
  assumes svd: "\<And>m. svd_shapes lib m"
    and ne: "points_in_left \<noteq> []"
    and l3: "list_all (\<lambda>p. length p = 3) points_in_left"
    and r3: "list_all (\<lambda>p. length p = 3) points_in_right"
    and len: "length points_in_right = length points_in_left"
  shows "if length points_in_left < 3
         then absolute_orientation_m lib points_in_left points_in_right = Inl ValueError
         else \<exists>M. cross_covariance points_in_left points_in_right = Inr M
                \<and> nrows M = 3 \<and> ncols M = 3
                \<and> (case svd lib M of
                     Inl e \<Rightarrow>
                       absolute_orientation_m lib points_in_left points_in_right = Inl e
                   | Inr (U, S, Vt) \<Rightarrow>
                       \<exists>UV. np_dot U (np_T Vt) = Inr UV
                          \<and> (case det lib UV of
                               Inl e \<Rightarrow>
                                 absolute_orientation_m lib points_in_left points_in_right
                                   = Inl e
                             | Inr d \<Rightarrow>
                                 \<exists>R t. absolute_orientation_m lib points_in_left
                                          points_in_right = Inr (R, t)))"
proof -
  obtain p0 ps where L: "points_in_left = p0 # ps"
    using ne by (cases points_in_left) auto
  have p0: "length p0 = 3" using l3 L by simp
  show ?thesis
  proof (cases "length points_in_left < 3")
    case True
    then show ?thesis using L p0 by (simp add: absolute_orientation_m_def)
  next
    case False
    define n where "n = length points_in_left"
    have rne: "points_in_right \<noteq> []" using len ne by auto
    obtain la where la: "np_array points_in_left = Inr la" "nrows la = n" "ncols la = 3"
      using np_array_rect[OF ne l3] n_def by auto
    obtain ra where ra: "np_array points_in_right = Inr ra" "nrows ra = n" "ncols ra = 3"
      using np_array_rect[OF rne r3] n_def len by auto
    let ?lmean = "np_mean1 (np_T la)" and ?rmean = "np_mean1 (np_T ra)"
    obtain lM where lM: "np_sub (np_T la) (np_T (np_tile ?lmean n)) = Inr lM"
        "nrows lM = 3" "ncols lM = n"
      using np_sub_same[of "np_T la" "np_T (np_tile ?lmean n)"] la by auto
    obtain rM where rM: "np_sub (np_T ra) (np_T (np_tile ?rmean n)) = Inr rM"
        "nrows rM = 3" "ncols rM = n"
      using np_sub_same[of "np_T ra" "np_T (np_tile ?rmean n)"] ra by auto
    obtain M where M: "np_dot lM (np_T rM) = Inr M" "nrows M = 3" "ncols M = 3"
      using np_dot_ok[of lM "np_T rM"] lM rM by auto
    have cc: "cross_covariance points_in_left points_in_right = Inr M"
      using la ra lM rM M n_def by (simp add: cross_covariance_def bindE_def Let_def)
    have pre: "absolute_orientation_m lib points_in_left points_in_right
        = bindE (svd lib M) (\<lambda>(U, S, Vt).
           let V = np_T Vt in
           bindE (np_dot U V) (\<lambda>UV.
           bindE (linalg_det lib UV) (\<lambda>d.
           bindE (np_dot V (np_diag [1, 1, d])) (\<lambda>VD.
           bindE (np_dot VD (np_T U)) (\<lambda>R.
           bindE (np_dot_vec R ?lmean) (\<lambda>Rl.
           bindE (np_sub_vec ?rmean Rl) (\<lambda>t. Inr (R, t))))))))"
      using False L p0 la ra lM rM M n_def
      by (simp add: absolute_orientation_m_def bindE_def Let_def)
    have tail: "case svd lib M of
                  Inl e \<Rightarrow> absolute_orientation_m lib points_in_left points_in_right = Inl e
                | Inr (U, S, Vt) \<Rightarrow>
                    \<exists>UV. np_dot U (np_T Vt) = Inr UV
                       \<and> (case det lib UV of
                            Inl e \<Rightarrow>
                              absolute_orientation_m lib points_in_left points_in_right = Inl e
                          | Inr d \<Rightarrow>
                              \<exists>R t. absolute_orientation_m lib points_in_left
                                       points_in_right = Inr (R, t))"
    proof (cases "svd lib M")
      case (Inl e)
      then show ?thesis using pre by (simp add: bindE_def)
    next
      case (Inr usv)
      obtain U S Vt where usv: "usv = (U, S, Vt)" by (cases usv) auto
      have sh: "nrows U = 3" "ncols U = 3" "nrows Vt = 3" "ncols Vt = 3"
        using svd[of M] Inr usv M by (simp_all add: svd_shapes_def)
      obtain UV where UV: "np_dot U (np_T Vt) = Inr UV" "nrows UV = 3" "ncols UV = 3"
        using np_dot_ok[of U "np_T Vt"] sh by auto
      have ld: "linalg_det lib UV = det lib UV"
        using UV by (simp add: linalg_det_def)
      have "case det lib UV of
              Inl e \<Rightarrow> absolute_orientation_m lib points_in_left points_in_right = Inl e
            | Inr d \<Rightarrow>
                \<exists>R t. absolute_orientation_m lib points_in_left points_in_right = Inr (R, t)"
      proof (cases "det lib UV")
        case (Inl e)
        then show ?thesis using pre Inr usv UV ld by (simp add: bindE_def Let_def)
      next
        case d: (Inr d)
        obtain VD where VD: "np_dot (np_T Vt) (np_diag [1, 1, d]) = Inr VD"
            "nrows VD = 3" "ncols VD = 3"
          using np_dot_ok[of "np_T Vt" "np_diag [1, 1, d]"] sh by (auto simp: np_diag_def)
        obtain R where R: "np_dot VD (np_T U) = Inr R" "nrows R = 3" "ncols R = 3"
          using np_dot_ok[of VD "np_T U"] sh VD by auto
        obtain Rl where Rl: "np_dot_vec R ?lmean = Inr Rl" "length Rl = 3"
          using R la by (simp add: np_dot_vec_def)
        obtain t where t: "np_sub_vec ?rmean Rl = Inr t"
          using Rl ra by (simp add: np_sub_vec_def broadcast_dim_def)
        have "absolute_orientation_m lib points_in_left points_in_right = Inr (R, t)"
          using pre Inr usv UV ld d VD R Rl t by (simp add: bindE_def Let_def)
        then show ?thesis using d by auto
      qed
      then show ?thesis using Inr usv UV by auto
    qed
    show ?thesis using False cc M tail by auto
  qed
qed

text \<open>The cross-covariance matrix of three points, one of them with a \<open>NaN\<close> coordinate.\<close>

lemma nan_cross_covariance:
  "cross_covariance [[Finite 1, 0, 0], [NaN, 0, 0], [Finite (- 1), 0, 0]]
       [[Finite 1, 0, 0], [NaN, 0, 0], [Finite (- 1), 0, 0]]
     = Inr \<lparr>nrows = 3, ncols = 3,
            elems = [[NaN, NaN, NaN], [NaN, Finite 0, Finite 0],
                     [NaN, Finite 0, Finite 0]]\<rparr>"
  by (simp add: cross_covariance_def bindE_def np_array_def np_T_def np_mean1_def np_tile_def
        np_sub_def bc_at_def broadcast_dim_def np_dot_def np_sum_def Let_def upt_rec
        zero_pyfloat_def one_pyfloat_def plus_pyfloat_def minus_pyfloat_def times_pyfloat_def
        divide_pyfloat_def eval_nat_numeral)

text \<open>
  The amended claim at concrete inputs: three collinear 3-D points (cross-covariance
  \<open>diag(2, 0, 0)\<close>, for which \<open>diag_linalg\<close> is a singular value decomposition) are
  accepted, two are refused at the function's check, and three points of which one has a
  \<open>NaN\<close> coordinate are refused by \<open>svd\<close>.
\<close>

theorem absolute_orientation_m_3d_witness:
  "(\<exists>R t. absolute_orientation_m diag_linalg [[1, 0, 0], [0, 0, 0], [-1, 0, 0]]
             [[1, 0, 0], [0, 0, 0], [-1, 0, 0]] = Inr (R, t))
   \<and> absolute_orientation_m diag_linalg [[1, 0, 0], [0, 0, 0]] [[1, 0, 0], [0, 0, 0]]
       = Inl ValueError
   \<and> absolute_orientation_m checking_linalg
         [[Finite 1, 0, 0], [NaN, 0, 0], [Finite (- 1), 0, 0]]
         [[Finite 1, 0, 0], [NaN, 0, 0], [Finite (- 1), 0, 0]] = Inl ValueError"
proof -
  have a: "\<exists>R t. absolute_orientation_m diag_linalg [[1, 0, 0], [0, 0, 0], [-1, 0, 0]]
             [[1, 0, 0], [0, 0, 0], [-1, 0, 0]] = Inr (R, t)"
    using absolute_orientation_m_3d[of diag_linalg "[[1, 0, 0], [0, 0, 0], [-1, 0, 0]]"
          "[[1, 0, 0], [0, 0, 0], [-1, 0, 0]]", OF svd_shapes_diag_linalg]
    by (auto simp: diag_linalg_def split: sum.splits prod.splits)
  have b: "absolute_orientation_m diag_linalg [[1, 0, 0], [0, 0, 0]] [[1, 0, 0], [0, 0, 0]]
       = Inl ValueError"
    using absolute_orientation_m_3d[of diag_linalg "[[1, 0, 0], [0, 0, 0]]"
          "[[1, 0, 0], [0, 0, 0]]", OF svd_shapes_diag_linalg]
    by simp
  let ?P = "[[Finite 1, 0, 0], [NaN, 0, 0], [Finite (- 1), 0, 0]]"
  have "\<exists>M. cross_covariance ?P ?P = Inr M \<and> nrows M = 3 \<and> ncols M = 3
          \<and> (case svd checking_linalg M of
               Inl e \<Rightarrow> absolute_orientation_m checking_linalg ?P ?P = Inl e
             | Inr (U, S, Vt) \<Rightarrow>
                 \<exists>UV. np_dot U (np_T Vt) = Inr UV
                    \<and> (case det checking_linalg UV of
                         Inl e \<Rightarrow> absolute_orientation_m checking_linalg ?P ?P = Inl e
                       | Inr d \<Rightarrow>
                           \<exists>R t. absolute_orientation_m checking_linalg ?P ?P = Inr (R, t)))"
    using absolute_orientation_m_3d[of checking_linalg ?P ?P, OF svd_shapes_checking_linalg]
    by simp
  then obtain M where M: "cross_covariance ?P ?P = Inr M"
    and tail: "case svd checking_linalg M of
               Inl e \<Rightarrow> absolute_orientation_m checking_linalg ?P ?P = Inl e
             | Inr (U, S, Vt) \<Rightarrow>
                 \<exists>UV. np_dot U (np_T Vt) = Inr UV
                    \<and> (case det checking_linalg UV of
                         Inl e \<Rightarrow> absolute_orientation_m checking_linalg ?P ?P = Inl e
                       | Inr d \<Rightarrow>
                           \<exists>R t. absolute_orientation_m checking_linalg ?P ?P = Inr (R, t))"
    by blast
  have "svd checking_linalg M = Inl ValueError"
    using M unfolding nan_cross_covariance
    by (auto simp: checking_linalg_def is_finite_def)
  then have c: "absolute_orientation_m checking_linalg ?P ?P = Inl ValueError"
    using tail by simp
  show ?thesis using a b c by blast
qed

section \<open>The orientation search\<close>

lemma orientation_step_effect:
  assumes obj: "objects (store st) a = Some (T\<lparr>matrix := m\<rparr>)"
  shows "let st' = orientation_step metric a st (key, orientation);
             v = metric (evaluations st) (T\<lparr>matrix := orientation\<rparr>)
         in objects (store st') a = Some (T\<lparr>matrix := orientation\<rparr>)
          \<and> evaluations st' = Suc (evaluations st)
          \<and> (if v < best_similarity_value st
              then best_similarity_value st' = v \<and> best_orientation st' = orientation
              else best_similarity_value st' = best_similarity_value st
                 \<and> best_orientation st' = best_orientation st)"
  using obj
  by (simp add: orientation_step_def SetMatrix_def update_object_def SetInitialTransform_def
        MetricEvaluate_def Let_def)

lemma search_loop:
  assumes "objects (store st) a = Some (T\<lparr>matrix := m\<rparr>)"
    and "(best_orientation st, best_similarity_value st) \<in> C"
    and "\<forall>(o', v) \<in> C. best_similarity_value st \<le> v"
  shows "let st' = foldl (orientation_step metric a) st items;
             C' = C \<union> set (loop_candidates metric T (evaluations st) items)
         in (\<exists>m'. objects (store st') a = Some (T\<lparr>matrix := m'\<rparr>))
          \<and> (best_orientation st', best_similarity_value st') \<in> C'
          \<and> (\<forall>(o', v) \<in> C'. best_similarity_value st' \<le> v)"
  using assms
proof (induction items arbitrary: st m C)
  case Nil
  then show ?case by (auto simp: loop_candidates_def)
next
  case (Cons item items)
  obtain key orientation where item: "item = (key, orientation)"
    by (cases item) auto
  let ?st1 = "orientation_step metric a st (key, orientation)"
  let ?v = "metric (evaluations st) (T\<lparr>matrix := orientation\<rparr>)"
  let ?C1 = "insert (orientation, ?v) C"
  have eff: "objects (store ?st1) a = Some (T\<lparr>matrix := orientation\<rparr>)"
      "evaluations ?st1 = Suc (evaluations st)"
      "?v < best_similarity_value st \<Longrightarrow>
         best_similarity_value ?st1 = ?v \<and> best_orientation ?st1 = orientation"
      "\<not> ?v < best_similarity_value st \<Longrightarrow>
         best_similarity_value ?st1 = best_similarity_value st
         \<and> best_orientation ?st1 = best_orientation st"
    using orientation_step_effect[OF Cons.prems(1), of metric key orientation]
    by (simp_all add: Let_def)
  have mem: "(best_orientation ?st1, best_similarity_value ?st1) \<in> ?C1"
    using eff(3,4) Cons.prems(2) by (cases "?v < best_similarity_value st") auto
  have low: "\<forall>(o', v) \<in> ?C1. best_similarity_value ?st1 \<le> v"
    using eff(3,4) Cons.prems(3) by (cases "?v < best_similarity_value st") fastforce+
  have "loop_candidates metric T (evaluations st) (item # items)
          = (orientation, ?v) # loop_candidates metric T (evaluations ?st1) items"
    by (simp add: loop_candidates_def item eff(2))
  then have C: "C \<union> set (loop_candidates metric T (evaluations st) (item # items))
          = ?C1 \<union> set (loop_candidates metric T (evaluations ?st1) items)"
    by auto
  show ?case
    using Cons.IH[OF eff(1) mem low] unfolding C by (simp add: item Let_def)
qed

section \<open>Objects that a run leaves alone\<close>

lemma unchanged_refl [simp]: "unchanged a s s"
  by (simp add: unchanged_def)

lemma unchanged_trans: "unchanged a s s' \<Longrightarrow> unchanged a s' s'' \<Longrightarrow> unchanged a s s''"
  by (simp add: unchanged_def)

lemma unchanged_less: "unchanged a s s' \<Longrightarrow> a < next_addr s \<Longrightarrow> a < next_addr s'"
  by (simp add: unchanged_def)

lemma unchanged_new_object: "a < next_addr s \<Longrightarrow> unchanged a s (snd (new_object T s))"
  by (simp add: unchanged_def new_object_def)

lemma unchanged_update_object: "a \<noteq> b \<Longrightarrow> unchanged a s (update_object b f s)"
  by (simp add: unchanged_def update_object_def split: option.splits)

lemma unchanged_start_plot: "unchanged a s (snd (start_plot s))"
  by (simp add: unchanged_def start_plot_def)

lemma unchanged_end_plot: "unchanged a s (snd (end_plot s))"
  by (simp add: unchanged_def end_plot_def Let_def)

lemma unchanged_plot_values:
  assumes "a < next_addr s"
  shows "unchanged a s (snd (plot_values lib rm fps mps s))"
  using assms
  by (auto simp: plot_values_def Let_def unchanged_def new_object_def update_object_def
           split: option.splits sum.splits prod.splits)

lemma unchanged_run_command:
  "a < next_addr s \<Longrightarrow> unchanged a s (snd (run_command lib rm c s))"
  by (cases c) (simp_all add: unchanged_start_plot unchanged_end_plot unchanged_plot_values)

lemma unchanged_fire:
  "a < next_addr s \<Longrightarrow> unchanged a s (snd (fire lib rm cs ev s))"
proof (induction cs arbitrary: s)
  case Nil
  then show ?case by simp
next
  case (Cons ec cs)
  obtain e c where ec: "ec = (e, c)"
    by (cases ec) auto
  show ?case
  proof (cases "e = ev")
    case False
    then show ?thesis using Cons ec by simp
  next
    case True
    obtain r s' where rc: "run_command lib rm c s = (r, s')"
      by (cases "run_command lib rm c s") auto
    have u: "unchanged a s s'"
      using unchanged_run_command[OF Cons.prems, of lib rm c] rc by simp
    show ?thesis
    proof (cases r)
      case (Some err)
      then show ?thesis using True ec rc u by simp
    next
      case None
      have "unchanged a s' (snd (fire lib rm cs ev s'))"
        using Cons.IH[OF unchanged_less[OF u Cons.prems]] .
      then show ?thesis using True ec rc None u unchanged_trans by simp
    qed
  qed
qed

lemma initial_transform_iterate:
  "initial_transform (fst (snd (iterate lib rm steps s))) = initial_transform rm"
proof (induction steps arbitrary: rm s)
  case Nil
  then show ?case by simp
next
  case (Cons st steps)
  obtain p v where st: "st = (p, v)"
    by (cases st) auto
  show ?case using Cons.IH by (simp add: st Let_def split: prod.splits option.splits)
qed

lemma unchanged_iterate:
  "a < next_addr s \<Longrightarrow> unchanged a s (snd (snd (iterate lib rm steps s)))"
proof (induction steps arbitrary: rm s)
  case Nil
  then show ?case by simp
next
  case (Cons st steps)
  obtain p v where st: "st = (p, v)"
    by (cases st) auto
  let ?rm = "rm\<lparr>optimizer_position := p, metric_value := v\<rparr>"
  obtain r s' where f: "fire lib ?rm (commands ?rm) sitkIterationEvent s = (r, s')"
    by (cases "fire lib ?rm (commands ?rm) sitkIterationEvent s") auto
  have u: "unchanged a s s'"
    using unchanged_fire[OF Cons.prems, of lib ?rm "commands ?rm" sitkIterationEvent] f by simp
  show ?case
  proof (cases r)
    case (Some err)
    then show ?thesis using st f u by (simp add: Let_def)
  next
    case None
    have "unchanged a s' (snd (snd (iterate lib ?rm steps s')))"
      using Cons.IH[OF unchanged_less[OF u Cons.prems]] .
    then show ?thesis using st f None u unchanged_trans by (simp add: Let_def)
  qed
qed

lemma unchanged_Execute:
  assumes "a < next_addr s" "a \<noteq> initial_transform rm"
  shows "unchanged a s (snd (snd (Execute lib rm fixed_image moving_image s)))"
proof (cases "objects s (initial_transform rm)")
  case None
  then show ?thesis by (simp add: Execute_def)
next
  case T0: (Some T0)
  obtain steps stop where opt: "optimize lib rm fixed_image moving_image T0 = (steps, stop)"
    by (cases "optimize lib rm fixed_image moving_image T0") auto
  let ?rm0 = "rm\<lparr>optimizer_position := GetParameters lib T0\<rparr>"
  obtain r1 s1 where f1: "fire lib ?rm0 (commands ?rm0) sitkStartEvent s = (r1, s1)"
    by (cases "fire lib ?rm0 (commands ?rm0) sitkStartEvent s") auto
  have u1: "unchanged a s s1"
    using unchanged_fire[OF assms(1), of lib ?rm0 "commands ?rm0" sitkStartEvent] f1 by simp
  show ?thesis
  proof (cases r1)
    case (Some err)
    then show ?thesis using T0 opt f1 u1 by (simp add: Execute_def)
  next
    case None
    obtain r2 rm2 s2 where it: "iterate lib ?rm0 steps s1 = (r2, rm2, s2)"
      by (cases "iterate lib ?rm0 steps s1") auto
    have a1: "a < next_addr s1"
      using unchanged_less[OF u1 assms(1)] .
    have u2: "unchanged a s1 s2"
      using unchanged_iterate[OF a1, of lib ?rm0 steps] it by simp
    have rm2: "initial_transform rm2 = initial_transform rm"
      using initial_transform_iterate[of lib ?rm0 steps s1] it by simp
    have u02: "unchanged a s s2"
      using unchanged_trans[OF u1 u2] .
    show ?thesis
    proof (cases r2)
      case (Some err)
      then show ?thesis using T0 opt f1 None it u02 by (simp add: Execute_def)
    next
      case None2: None
      let ?s3 = "update_object (initial_transform rm2)
                   (SetParameters lib (optimizer_position rm2)) s2"
      let ?rm3 = "rm2\<lparr>stop_condition := stop\<rparr>"
      have u3: "unchanged a s2 ?s3"
        using unchanged_update_object[of a "initial_transform rm2"] assms(2) rm2 by simp
      have u03: "unchanged a s ?s3"
        using unchanged_trans[OF u02 u3] .
      obtain r4 s4 where f4: "fire lib ?rm3 (commands ?rm3) sitkEndEvent ?s3 = (r4, s4)"
        by (cases "fire lib ?rm3 (commands ?rm3) sitkEndEvent ?s3") auto
      have u4: "unchanged a ?s3 s4"
        using unchanged_fire[OF unchanged_less[OF u03 assms(1)], of lib ?rm3 "commands ?rm3"
                sitkEndEvent] f4 by simp
      have u04: "unchanged a s s4"
        using unchanged_trans[OF u03 u4] .
      show ?thesis using T0 opt f1 None it None2 f4 u04
        by (cases r4) (simp_all add: Execute_def Let_def)
    qed
  qed
qed

section \<open>C7: the orientation search selects a minimal candidate\<close>

text \<open>
  C7: whatever values the metric gives to the candidates, and in whatever order the loop
  takes them, the cell ends with a candidate that was evaluated, whose value is minimal
  among the values of all evaluated candidates, and the rotation matrix of
  \<open>initial_transform\<close> is set to that candidate before the registration is started
  (centre and translation are as the initialiser left them).
\<close>

theorem initialize_all_orientations_selects_minimum:
  "let (a, st) = initialize_all_orientations metric c t items s0;
       C = set (evaluated_candidates metric c t items)
   in (best_orientation st, best_similarity_value st) \<in> C
    \<and> (\<forall>(orientation, v) \<in> C. best_similarity_value st \<le> v)
    \<and> objects (store st) a
        = Some ((CenteredTransformInitializer c t)\<lparr>matrix := best_orientation st\<rparr>)"
proof -
  let ?T = "CenteredTransformInitializer c t"
  let ?a = "next_addr s0"
  let ?s2 = "s0\<lparr>objects := (objects s0)(?a \<mapsto> ?T, Suc ?a \<mapsto> ?T),
                next_addr := Suc (Suc ?a)\<rparr>"
  let ?st2 = "\<lparr>store = ?s2, method_transform = Suc ?a, evaluations = 1,
               best_similarity_value = metric 0 ?T, best_orientation = identity_matrix\<rparr>"
  let ?st3 = "foldl (orientation_step metric ?a) ?st2 items"
  let ?C0 = "{(identity_matrix, metric 0 ?T)}"
  have init: "initialize_all_orientations metric c t items s0
        = (?a, ?st3\<lparr>store := SetMatrix ?a (best_orientation ?st3) (store ?st3)\<rparr>)"
    by (simp add: initialize_all_orientations_def new_object_def SetInitialTransform_def
          MetricEvaluate_def Let_def)
  have obj: "objects (store ?st2) ?a = Some (?T\<lparr>matrix := identity_matrix\<rparr>)"
    by (simp add: CenteredTransformInitializer_def)
  have loop: "(\<exists>m'. objects (store ?st3) ?a = Some (?T\<lparr>matrix := m'\<rparr>))
          \<and> (best_orientation ?st3, best_similarity_value ?st3)
               \<in> ?C0 \<union> set (loop_candidates metric ?T 1 items)
          \<and> (\<forall>(o', v) \<in> ?C0 \<union> set (loop_candidates metric ?T 1 items).
                best_similarity_value ?st3 \<le> v)"
    using search_loop[OF obj, of ?C0 metric items] by (simp add: Let_def)
  have C: "set (evaluated_candidates metric c t items)
             = ?C0 \<union> set (loop_candidates metric ?T 1 items)"
    by (simp add: evaluated_candidates_def loop_candidates_def)
  obtain m' where m': "objects (store ?st3) ?a = Some (?T\<lparr>matrix := m'\<rparr>)"
    using loop by blast
  have fin: "objects (SetMatrix ?a (best_orientation ?st3) (store ?st3)) ?a
        = Some (?T\<lparr>matrix := best_orientation ?st3\<rparr>)"
    using m' by (simp add: SetMatrix_def update_object_def)
  show ?thesis
    unfolding init C using loop fin by (simp add: Let_def)
qed

text \<open>
  The notebook's seven orientation changes, scored by the sum of the matrix entries: the
  identity scores 3, the candidates score 1, 1, -1, -1, -3, 1, -1, and the cell selects
  the candidate that scores -3.
\<close>

theorem initialize_all_orientations_selects_minimum_witness:
  "let (a, st) = initialize_all_orientations matrix_sum_metric [0, 0, 0] [1, 2, 3]
                   possible_orientation_changes empty_state
   in best_orientation st = [0, -1, 0, -1, 0, 0, 0, 0, -1]
    \<and> best_similarity_value st = -3
    \<and> map_option matrix (objects (store st) a) = Some [0, -1, 0, -1, 0, 0, 0, 0, -1]"
proof -
  let ?C = "evaluated_candidates matrix_sum_metric [0, 0, 0] [1, 2, 3]
              possible_orientation_changes"
  have C: "?C
      = [([1, 0, 0, 0, 1, 0, 0, 0, 1], 3), ([0, -1, 0, 1, 0, 0, 0, 0, 1], 1),
         ([0, 1, 0, -1, 0, 0, 0, 0, 1], 1), ([-1, 0, 0, 0, -1, 0, 0, 0, 1], -1),
         ([1, 0, 0, 0, -1, 0, 0, 0, -1], -1), ([0, -1, 0, -1, 0, 0, 0, 0, -1], -3),
         ([0, 1, 0, 1, 0, 0, 0, 0, -1], 1), ([-1, 0, 0, 0, 1, 0, 0, 0, -1], -1)]"
    by (simp add: evaluated_candidates_def possible_orientation_changes_def
          matrix_sum_metric_def CenteredTransformInitializer_def identity_matrix_def)
  obtain a st where r: "initialize_all_orientations matrix_sum_metric [0, 0, 0] [1, 2, 3]
                          possible_orientation_changes empty_state = (a, st)"
    by (cases "initialize_all_orientations matrix_sum_metric [0, 0, 0] [1, 2, 3]
                 possible_orientation_changes empty_state") auto
  have th: "(best_orientation st, best_similarity_value st) \<in> set ?C
    \<and> (\<forall>(orientation, v) \<in> set ?C. best_similarity_value st \<le> v)
    \<and> objects (store st) a
        = Some ((CenteredTransformInitializer [0, 0, 0] [1, 2, 3])
                  \<lparr>matrix := best_orientation st\<rparr>)"
    using initialize_all_orientations_selects_minimum[of matrix_sum_metric "[0, 0, 0]"
            "[1, 2, 3]" possible_orientation_changes empty_state]
    unfolding r by (simp add: Let_def)
  have low: "best_similarity_value st \<le> -3"
    using th[THEN conjunct2, THEN conjunct1] unfolding C by simp
  have mem: "(best_orientation st, best_similarity_value st) \<in> set ?C"
    using th[THEN conjunct1] .
  have "best_orientation st = [0, -1, 0, -1, 0, 0, 0, 0, -1] \<and> best_similarity_value st = -3"
    using mem low unfolding C by auto
  then show ?thesis
    using th[THEN conjunct2, THEN conjunct2] unfolding r by simp
qed

section \<open>C10: register\_images leaves the caller's transform alone\<close>

text \<open>
  C10: \<open>register_images\<close> never changes the object \<open>initial_transform\<close> refers to.
  Whatever the library's optimizer does and whether the call returns or raises, the
  object (its type, rotation, translation and centre) is afterwards what it was before:
  the optimisation and the plotting callback work on copies.
\<close>

theorem register_images_keeps_initial_transform:
  assumes "a < next_addr s"
  shows "objects (snd (register_images lib fixed_points moving_points fixed_image moving_image
                         a interp s)) a
         = objects s a"
proof (cases "objects s a")
  case None
  then show ?thesis
    by (simp add: register_images_def SetInitialTransform_def Execute_def)
next
  case (Some T)
  let ?s1 = "snd (new_object T s)"
  let ?r = "next_addr s"
  have u1: "unchanged a s ?s1"
    using unchanged_new_object[OF assms] .
  have ne: "a \<noteq> ?r"
    using assms by simp
  have a1: "a < next_addr ?s1"
    using unchanged_less[OF u1 assms] .
  define rm where "rm =
     \<lparr>numberOfHistogramBins = 50,
      metricSamplingStrategy = REGULAR,
      metricSamplingPercentage = 0.01,
      method_interpolator = interp,
      learningRate = 1.0,
      numberOfIterations = 1000,
      scalesFromPhysicalShift = True,
      initial_transform = ?r,
      commands = [(sitkStartEvent, Call_start_plot),
                  (sitkEndEvent, Call_end_plot),
                  (sitkIterationEvent, Call_plot_values fixed_points moving_points)],
      metric_value = 0,
      optimizer_position = [],
      stop_condition = []\<rparr>"
  have ir: "initial_transform rm = ?r"
    by (simp add: rm_def)
  have u2: "unchanged a ?s1 (snd (snd (Execute lib rm fixed_image moving_image ?s1)))"
    using unchanged_Execute[OF a1, of rm lib fixed_image moving_image] ne ir by simp
  have "snd (register_images lib fixed_points moving_points fixed_image moving_image a interp s)
          = snd (snd (Execute lib rm fixed_image moving_image ?s1))"
    using Some
    by (simp add: register_images_def SetInitialTransform_def new_object_def rm_def
          split: prod.splits sum.splits)
  then show ?thesis
    using unchanged_trans[OF u1 u2] by (simp add: unchanged_def)
qed

text \<open>
  A concrete run (two optimizer steps, one reference point): the call returns a reference
  to a new object that holds the optimised translation.
\<close>

lemma register_images_toy_run:
  "fst (register_images toy_sitk [[0, 0, 0]] [[1, 0, 0]] () () 0 sitkLinear one_transform_state)
     = Inr (1, ''Maximum number of iterations'')
   \<and> map_option translation
       (objects (snd (register_images toy_sitk [[0, 0, 0]] [[1, 0, 0]] () () 0 sitkLinear
                        one_transform_state)) 1)
     = Some [2, 0, 0]"
  by (simp add: register_images_def SetInitialTransform_def new_object_def
        one_transform_state_def empty_state_def Execute_def toy_sitk_def Let_def start_plot_def
        end_plot_def plot_values_def update_object_def registration_errors_def bindE_def
        np_sub_vec_def broadcast_dim_def linalg_norm_def np_mean_def np_std_def
        CenteredTransformInitializer_def identity_transform_def identity_matrix_def)

text \<open>In that run the caller's object, at address 0, is still the initialiser's transform.\<close>

theorem register_images_keeps_initial_transform_witness:
  "objects (snd (register_images toy_sitk [[0, 0, 0]] [[1, 0, 0]] () () 0 sitkLinear
                   one_transform_state)) 0
     = Some (CenteredTransformInitializer [0, 0, 0] [0, 0, 0])"
  using register_images_keeps_initial_transform[of 0 one_transform_state toy_sitk
          "[[0, 0, 0]]" "[[1, 0, 0]]" "()" "()" sitkLinear]
  by (simp add: one_transform_state_def empty_state_def)

text \<open>
  For contrast, a method that was given the transform in place (the default of
  \<open>SetInitialTransform\<close>, as in \<open>multires_registration\<close>) does change the caller's object.
\<close>

lemma Execute_in_place_changes_transform:
  "map_option translation
     (objects (snd (snd (Execute toy_sitk in_place_method () () one_transform_state))) 0)
     = Some [2, 0, 0]"
  by (simp add: Execute_def in_place_method_def one_transform_state_def empty_state_def
        toy_sitk_def update_object_def CenteredTransformInitializer_def)

section \<open>C8: nearest-neighbour resampling of a binary image\<close>

lemma offset_less:
  "list_all2 (\<lambda>i n. i < n) idx ns \<Longrightarrow> offset ns idx < prod_list ns"
proof (induction rule: list_all2_induct)
  case Nil
  then show ?case by simp
next
  case (Cons i idx n ns)
  have "i + n * offset ns idx < n * Suc (offset ns idx)"
    using Cons.hyps(1) by simp
  also have "\<dots> \<le> n * prod_list ns"
    using Cons.IH by (simp add: Suc_leI del: mult_Suc_right)
  finally show ?case by simp
qed

lemma voxel_at_in_buffer:
  assumes "valid_image img" "voxel_at img idx = Some v"
  shows "v \<in> set (buffer img)"
proof -
  have all: "list_all2 (\<lambda>i n. 0 \<le> i \<and> i < int n) idx (counts img)"
    and v: "v = buffer img ! offset (counts img) (map nat idx)"
    using assms(2) by (auto simp: voxel_at_def split: if_splits)
  have "list_all2 (\<lambda>i n. i < n) (map nat idx) (counts img)"
    using all by (auto simp: list_all2_map1 elim!: list_all2_mono)
  then have "offset (counts img) (map nat idx) < length (buffer img)"
    using offset_less assms(1) by (simp add: valid_image_def)
  then show ?thesis using v by simp
qed

lemma interpolate_nearest_value:
  assumes "valid_image img"
  shows "interpolate_nearest tol d img ci \<in> insert d (set (buffer img))"
  using voxel_at_in_buffer[OF assms]
  by (auto simp: interpolate_nearest_def split: option.splits)

text \<open>
  C8: for every source image with all voxel values in \<open>{0, 1}\<close>, every target grid, every
  transform (any map of points) and every tolerance, nearest-neighbour resampling with
  default value 0 produces an image on the target grid with all voxel values in
  \<open>{0, 1}\<close>.  The only source images for which no image is produced are those with no
  voxels along some axis, which the Resampler refuses with \<open>DomainError\<close>.
\<close>

theorem resample_nearest_binary:
  assumes "valid_image src" "set (buffer src) \<subseteq> {0, 1}"
  shows "if 0 \<in> set (counts src)
         then resample Nearest tol 0 src target T = Inl DomainError
         else \<exists>out. resample Nearest tol 0 src target T = Inr out
                 \<and> grid.truncate out = target
                 \<and> set (buffer out) \<subseteq> {0, 1}"
proof (cases "0 \<in> set (counts src)")
  case True
  then show ?thesis by (simp add: resample_def)
next
  case False
  have "interpolate_nearest tol 0 src ci \<in> {0, 1}" for ci
    using interpolate_nearest_value[OF assms(1), of tol 0 ci] assms(2) by auto
  then show ?thesis using False
    by (auto simp: resample_def grid.truncate_def Let_def)
qed

text \<open>
  Two voxels 0 and 1 on a line, sampled at 0, 1/2 and 1: nearest-neighbour gives 0, 1, 1
  (one half rounds away from zero), linear interpolation gives 0, 1/2, 1.
\<close>

lemma resample_nearest_example:
  "resample Nearest 0 0 two_voxels half_way_grid (\<lambda>p. p)
     = Inr \<lparr>counts = [3], origin = [0], spacing = [1 / 2], direction = [[1]],
            buffer = [0, 1, 1]\<rparr>"
  by (simp add: resample_def two_voxels_def half_way_grid_def
        physical_to_continuous_index_def index_to_physical_def mat_vec_def
        interpolate_nearest_def inside_domain_def voxel_at_def round_half_away_def upt_rec
        transpose.simps)

lemma resample_linear_example:
  "resample Linear 0 0 two_voxels half_way_grid (\<lambda>p. p)
     = Inr \<lparr>counts = [3], origin = [0], spacing = [1 / 2], direction = [[1]],
            buffer = [0, 1 / 2, 1]\<rparr>"
  by (simp add: resample_def two_voxels_def half_way_grid_def
        physical_to_continuous_index_def index_to_physical_def mat_vec_def
        interpolate_linear_def inside_domain_def voxel_at_def upt_rec transpose.simps Let_def)

theorem resample_nearest_binary_witness:
  "\<exists>out. resample Nearest 0 0 two_voxels half_way_grid (\<lambda>p. p) = Inr out
         \<and> grid.truncate out = half_way_grid
         \<and> set (buffer out) \<subseteq> {0, 1}"
  using resample_nearest_binary[of two_voxels 0 half_way_grid "\<lambda>p. p"]
  by (simp add: two_voxels_def valid_image_def)

section \<open>C3: the rigid transform maps a point by the rotation matrix about the centre\<close>

text \<open>
  C3: for every point, every parameter vector (angles and translation) and every centre,
  \<open>transform_point\<close> (extrinsic rotations about X, then Y, then Z, about the centre, then
  the translation) equals \<open>R(angles)\<cdot>(p - center) + center + translation\<close> with
  \<open>R(angles) = Rz\<cdot>Ry\<cdot>Rx\<close>.
\<close>

theorem transform_point_is_matrix_formula:
  "transform_point T p
     = vadd (vadd (mat_vec3 (euler_matrix (rigid_angles T)) (vsub p (rigid_center T)))
               (rigid_center T))
         (rigid_translation T)"
proof -
  obtain ax ay az where a: "rigid_angles T = (ax, ay, az)" by (cases "rigid_angles T") auto
  obtain x y z where q: "vsub p (rigid_center T) = (x, y, z)" by (cases "vsub p (rigid_center T)") auto
  have "rotate_z az (rotate_y ay (rotate_x ax (x, y, z)))
          = mat_vec3 (mat_mul3 (Rz az) (mat_mul3 (Ry ay) (Rx ax))) (x, y, z)"
    by (simp add: rotate_x_def rotate_y_def rotate_z_def mat_vec3_def mat_mul3_def columns3_def
          dot3_def Rx_def Ry_def Rz_def algebra_simps)
  then show ?thesis by (simp add: transform_point_def euler_matrix_def a q)
qed

text \<open>The quarter turn maps \<open>(2, 0, 0)\<close> to \<open>(1, 1, 1)\<close>.\<close>

theorem transform_point_is_matrix_formula_witness:
  "transform_point quarter_turn (2, 0, 0) = (1, 1, 1)"
  unfolding transform_point_is_matrix_formula
  by (simp add: quarter_turn_def euler_matrix_def mat_mul3_def columns3_def mat_vec3_def
        dot3_def vadd_def vsub_def Rx_def Ry_def Rz_def)

section \<open>C4: the iterations of the gradient descent\<close>

lemma trace_nonempty: "optimizer_trace cfg cancel metric st \<noteq> []"
  by (subst optimizer_trace.simps) simp

lemma trace_hd: "hd (optimizer_trace cfg cancel metric st) = st"
  by (subst optimizer_trace.simps) simp

lemma trace_steps:
  "Suc i < length (optimizer_trace cfg cancel metric st) \<Longrightarrow>
     optimizer_trace cfg cancel metric st ! Suc i
       = optimizer_step cfg metric (optimizer_trace cfg cancel metric st ! i)"
proof (induction cfg cancel metric st arbitrary: i rule: optimizer_trace.induct)
  case (1 cfg cancel metric st)
  show ?case
  proof (cases "should_stop cfg cancel st")
    case True
    then have "optimizer_trace cfg cancel metric st = [st]"
      by (subst optimizer_trace.simps) simp
    then show ?thesis using "1.prems" by simp
  next
    case False
    let ?rest = "optimizer_trace cfg cancel metric (optimizer_step cfg metric st)"
    have eq: "optimizer_trace cfg cancel metric st = st # ?rest"
      using False by (subst optimizer_trace.simps) simp
    show ?thesis
    proof (cases i)
      case 0
      then show ?thesis
        using eq trace_hd[of cfg cancel metric "optimizer_step cfg metric st"]
          trace_nonempty[of cfg cancel metric "optimizer_step cfg metric st"]
        by (simp add: hd_conv_nth)
    next
      case (Suc j)
      then have "Suc j < length ?rest" using "1.prems" eq by simp
      then show ?thesis using "1.IH"[OF False] eq Suc by simp
    qed
  qed
qed

lemma trace_stops:
  "i < length (optimizer_trace cfg cancel metric st) \<Longrightarrow>
     should_stop cfg cancel (optimizer_trace cfg cancel metric st ! i)
       \<longleftrightarrow> Suc i = length (optimizer_trace cfg cancel metric st)"
proof (induction cfg cancel metric st arbitrary: i rule: optimizer_trace.induct)
  case (1 cfg cancel metric st)
  show ?case
  proof (cases "should_stop cfg cancel st")
    case True
    then have "optimizer_trace cfg cancel metric st = [st]"
      by (subst optimizer_trace.simps) simp
    then show ?thesis using "1.prems" True by simp
  next
    case False
    let ?rest = "optimizer_trace cfg cancel metric (optimizer_step cfg metric st)"
    have eq: "optimizer_trace cfg cancel metric st = st # ?rest"
      using False by (subst optimizer_trace.simps) simp
    show ?thesis
    proof (cases i)
      case 0
      then show ?thesis
        using eq False trace_nonempty[of cfg cancel metric "optimizer_step cfg metric st"]
        by simp
    next
      case (Suc j)
      then have "j < length ?rest" using "1.prems" eq by simp
      then show ?thesis using "1.IH"[OF False] eq Suc by simp
    qed
  qed
qed

lemma trace_first: "optimizer_trace cfg cancel metric st ! 0 = st"
  using trace_hd[of cfg cancel metric st] trace_nonempty[of cfg cancel metric st]
  by (simp add: hd_conv_nth)

lemma step_fields:
  assumes "current_gradient st = Gradient g"
  shows "params (optimizer_step cfg metric st) = update_params cfg st g"
    and "scales (optimizer_step cfg metric st) = scales st"
    and "iteration (optimizer_step cfg metric st) = Suc (iteration st)"
    and "current_gradient (optimizer_step cfg metric st)
           = snd (metric (Suc (iteration st)) (update_params cfg st g))"
    and "value_history (optimizer_step cfg metric st)
           = fst (metric (Suc (iteration st)) (update_params cfg st g)) # value_history st"
  using assms by (simp_all add: optimizer_step_def Let_def split: prod.splits)

lemma init_fields:
  "params (init_optimizer metric p sc) = p"
  "scales (init_optimizer metric p sc) = sc"
  "iteration (init_optimizer metric p sc) = 0"
  "current_gradient (init_optimizer metric p sc) = snd (metric 0 p)"
  "value_history (init_optimizer metric p sc) = [fst (metric 0 p)]"
  by (simp_all add: init_optimizer_def split: prod.splits)

lemma length_update_params [simp]: "length (update_params cfg st g) = length (params st)"
  by (simp add: update_params_def)

text \<open>
  What holds of every state of a run from \<open>Init\<close>: the iteration count is the state's
  position, the scales and the number of parameters are those of the seed, value and
  gradient are the Metric's at the state's parameters, and the history holds the values
  of the states so far, the current one first.
\<close>

lemma trace_invariant:
  fixes cfg cancel metric p sc
  defines "tr \<equiv> optimizer_trace cfg cancel metric (init_optimizer metric p sc)"
  assumes "i < length tr"
  shows "iteration (tr ! i) = i \<and> scales (tr ! i) = sc \<and> length (params (tr ! i)) = length p
       \<and> current_gradient (tr ! i) = snd (metric i (params (tr ! i)))
       \<and> length (value_history (tr ! i)) = Suc i
       \<and> (\<forall>j\<le>i. value_history (tr ! i) ! j = current_value (tr ! (i - j)))
       \<and> current_value (tr ! i) = fst (metric i (params (tr ! i)))"
  using assms(2)
proof (induction i)
  case 0
  show ?case
    by (simp add: tr_def trace_first init_fields current_value_def)
next
  case (Suc i)
  then have IH: "iteration (tr ! i) = i" "scales (tr ! i) = sc"
      "length (params (tr ! i)) = length p"
      "length (value_history (tr ! i)) = Suc i"
      "\<And>j. j \<le> i \<Longrightarrow> value_history (tr ! i) ! j = current_value (tr ! (i - j))"
    by simp_all
  have step: "tr ! Suc i = optimizer_step cfg metric (tr ! i)"
    using trace_steps Suc.prems unfolding tr_def by blast
  have "\<not> should_stop cfg cancel (tr ! i)"
    using trace_stops[of i cfg cancel metric "init_optimizer metric p sc"] Suc.prems
    unfolding tr_def by simp
  then obtain g where g: "current_gradient (tr ! i) = Gradient g"
    by (cases "current_gradient (tr ! i)") (auto simp: should_stop_def diverged_def)
  note F = step_fields[OF g, of cfg metric, folded step]
  have cv: "current_value (tr ! Suc i) = fst (metric (Suc i) (params (tr ! Suc i)))"
    using F IH(1) by (simp add: current_value_def)
  have hist: "value_history (tr ! Suc i) ! j = current_value (tr ! (Suc i - j))"
    if "j \<le> Suc i" for j
  proof (cases j)
    case 0
    then show ?thesis by (simp add: current_value_def F(5))
  next
    case (Suc k)
    then have "k \<le> i" using that by simp
    then show ?thesis using IH(5)[of k] Suc by (simp add: F(5))
  qed
  show ?case
    using F IH cv hist by simp
qed

lemma sqrt_less_pos: "0 < y \<Longrightarrow> sqrt x < y \<longleftrightarrow> x < y\<^sup>2"
  by (metis real_sqrt_less_iff real_sqrt_abs abs_of_pos)

text \<open>The definitions that a concrete optimizer run unfolds.\<close>

lemmas run_defs = optimizer_trace.simps init_optimizer_def should_stop_def reached_maximum_def
  failed_to_improve_def gradient_below_tolerance_def scaled_gradient_magnitude_def
  diverged_def optimizer_step_def update_params_def current_value_def Let_def
  square_metric_def flat_metric_def nan_metric_def never_def after_one_def unit_scales_def
  toy_optimizer_config_def patient_config_def sqrt_less_pos

text \<open>
  C4 as stated fails.  The claim says that the iterations stop exactly when (a) the
  iteration count reaches the maximum, (b) the value fails to improve beyond the
  tolerance for the configured number of consecutive iterations, or (c) the scaled
  gradient magnitude falls below its tolerance.  The optimizer of the specification also
  stops on a gradient that is not a finite number (\<open>Diverged\<close>) and when it finds
  cancellation requested between two iterations.  Two runs that stop with none of (a),
  (b), (c): on a metric whose gradient is not finite the first state is the last; and on
  the metric \<open>x\<^sup>2\<close> from \<open>x = 4\<close>, with cancellation requested after the first iteration,
  the run ends at \<open>x = 2\<close> after one of at most five iterations, the value having improved
  from 16 to 4 and the scaled gradient magnitude being 4, above the tolerance 1/2.
\<close>

theorem gradient_descent_stops_counterexample:
  "(let tr = optimizer_trace patient_config never nan_metric
               (init_optimizer nan_metric [4] unit_scales)
    in length tr = 1
     \<and> \<not> reached_maximum patient_config (tr ! 0)
     \<and> \<not> failed_to_improve patient_config (tr ! 0)
     \<and> \<not> gradient_below_tolerance patient_config (tr ! 0))
   \<and> (let tr = optimizer_trace patient_config after_one square_metric
                  (init_optimizer square_metric [4] unit_scales)
       in map params tr = [[4], [2]]
        \<and> \<not> reached_maximum patient_config (tr ! 1)
        \<and> \<not> failed_to_improve patient_config (tr ! 1)
        \<and> \<not> gradient_below_tolerance patient_config (tr ! 1))"
  by (simp add: run_defs)

text \<open>
  C4, amended: along the states the optimizer goes through from \<open>Init\<close>, the \<open>i\<close>-th state
  has iteration count \<open>i\<close> and the scale factors of the start; its value and gradient are
  the ones the Metric gives at its parameters; every state but the last has a finite
  gradient, and the parameters of the next state are
  \<open>params - learningRate * scale * gradient\<close>, parameter by parameter; and a state is the
  last one exactly when (a) \<open>i\<close> has reached the maximum iteration count, or (b) each of
  the last \<open>convergence_window\<close> iterations lowered the metric value of the state before
  it by no more than the convergence tolerance, or (c) the scaled gradient magnitude is
  below its tolerance, or (d) the gradient is not a finite number, or (e) cancellation
  is found requested after \<open>i\<close> iterations.
\<close>

theorem gradient_descent_update_and_stop:
  "let tr = optimizer_trace cfg cancel metric (init_optimizer metric p0 sc)
   in tr \<noteq> [] \<and> params (tr ! 0) = p0 \<and>
      (\<forall>i < length tr.
         iteration (tr ! i) = i \<and> scales (tr ! i) = sc
       \<and> (current_value (tr ! i), current_gradient (tr ! i)) = metric i (params (tr ! i))
       \<and> (Suc i < length tr \<longrightarrow>
            (\<exists>g. current_gradient (tr ! i) = Gradient g
               \<and> params (tr ! Suc i)
                   = map (\<lambda>k. params (tr ! i) ! k - learning_rate cfg * sc k * g k)
                       [0..<length p0]))
       \<and> (Suc i = length tr \<longleftrightarrow>
            max_iterations cfg \<le> i
          \<or> (convergence_window cfg \<le> i
             \<and> (\<forall>j < convergence_window cfg.
                   \<not> convergence_tolerance cfg
                       < current_value (tr ! (i - Suc j)) - current_value (tr ! (i - j))))
          \<or> (\<exists>g. current_gradient (tr ! i) = Gradient g
                \<and> sqrt (\<Sum>k\<leftarrow>[0..<length p0]. (sc k * g k)\<^sup>2) < gradient_tolerance cfg)
          \<or> current_gradient (tr ! i) = Not_finite
          \<or> cancel i))"
proof -
  let ?tr = "optimizer_trace cfg cancel metric (init_optimizer metric p0 sc)"
  have a: "?tr \<noteq> []" by (rule trace_nonempty)
  have b: "params (?tr ! 0) = p0" by (simp add: trace_first init_fields)
  have inv: "iteration (?tr ! i) = i" "scales (?tr ! i) = sc"
      "length (params (?tr ! i)) = length p0"
      "current_gradient (?tr ! i) = snd (metric i (params (?tr ! i)))"
      "length (value_history (?tr ! i)) = Suc i"
      "\<And>j. j \<le> i \<Longrightarrow> value_history (?tr ! i) ! j = current_value (?tr ! (i - j))"
      "current_value (?tr ! i) = fst (metric i (params (?tr ! i)))"
    if "i < length ?tr" for i
    using trace_invariant[OF that] by simp_all
  have c: "(current_value (?tr ! i), current_gradient (?tr ! i)) = metric i (params (?tr ! i))"
    if "i < length ?tr" for i
    using inv(4,7)[OF that] by simp
  have d: "\<exists>g. current_gradient (?tr ! i) = Gradient g
               \<and> params (?tr ! Suc i)
                   = map (\<lambda>k. params (?tr ! i) ! k - learning_rate cfg * sc k * g k)
                       [0..<length p0]"
    if "Suc i < length ?tr" for i
  proof -
    have i: "i < length ?tr" using that by simp
    have "\<not> should_stop cfg cancel (?tr ! i)"
      using trace_stops[OF i] that by simp
    then obtain g where g: "current_gradient (?tr ! i) = Gradient g"
      by (cases "current_gradient (?tr ! i)") (auto simp: should_stop_def diverged_def)
    have "params (?tr ! Suc i) = update_params cfg (?tr ! i) g"
      using trace_steps[OF that] step_fields(1)[OF g] by simp
    then show ?thesis
      using g inv(2,3)[OF i] by (simp add: update_params_def)
  qed
  have e: "Suc i = length ?tr \<longleftrightarrow>
            max_iterations cfg \<le> i
          \<or> (convergence_window cfg \<le> i
             \<and> (\<forall>j < convergence_window cfg.
                   \<not> convergence_tolerance cfg
                       < current_value (?tr ! (i - Suc j)) - current_value (?tr ! (i - j))))
          \<or> (\<exists>g. current_gradient (?tr ! i) = Gradient g
                \<and> sqrt (\<Sum>k\<leftarrow>[0..<length p0]. (sc k * g k)\<^sup>2) < gradient_tolerance cfg)
          \<or> current_gradient (?tr ! i) = Not_finite
          \<or> cancel i"
    if i: "i < length ?tr" for i
  proof -
    have A: "reached_maximum cfg (?tr ! i) \<longleftrightarrow> max_iterations cfg \<le> i"
      by (simp add: reached_maximum_def inv(1)[OF i])
    have B: "failed_to_improve cfg (?tr ! i) \<longleftrightarrow>
               convergence_window cfg \<le> i
             \<and> (\<forall>j < convergence_window cfg.
                   \<not> convergence_tolerance cfg
                       < current_value (?tr ! (i - Suc j)) - current_value (?tr ! (i - j)))"
      using inv(5,6)[OF i]
      by (auto simp: failed_to_improve_def list_all_iff)
    have C: "gradient_below_tolerance cfg (?tr ! i) \<longleftrightarrow>
               (\<exists>g. current_gradient (?tr ! i) = Gradient g
                \<and> sqrt (\<Sum>k\<leftarrow>[0..<length p0]. (sc k * g k)\<^sup>2) < gradient_tolerance cfg)"
      using inv(2,3)[OF i]
      by (auto simp: gradient_below_tolerance_def scaled_gradient_magnitude_def
            split: gradient.splits)
    show ?thesis
      using trace_stops[OF i] A B C inv(1)[OF i]
      by (simp add: should_stop_def diverged_def)
  qed
  show ?thesis using a b c d e inv(1,2) by (simp add: Let_def)
qed


text \<open>
  Five runs, one for every stop condition.  (a) \<open>x\<^sup>2\<close> from 4 with learning rate 1/4 and
  at most two iterations: the parameters go 4, 2, 1.  (b) A metric whose value stays 0
  and whose gradient is 1: with a window of one iteration the run ends after the first
  iteration.  (c) \<open>x\<^sup>2\<close> from 0: the gradient is 0, and the first state is the last.  (d) A
  metric whose gradient is not finite.  (e) \<open>x\<^sup>2\<close> from 4 with cancellation requested
  after the first iteration.
\<close>

lemma run_a:
  "map (\<lambda>st. (params st, current_value st))
     (optimizer_trace toy_optimizer_config never square_metric
        (init_optimizer square_metric [4] unit_scales))
   = [([4], 16), ([2], 4), ([1], 1)]"
  by (simp add: run_defs)

lemma run_b:
  "map (\<lambda>st. (params st, current_value st))
     (optimizer_trace patient_config never flat_metric
        (init_optimizer flat_metric [4] unit_scales))
   = [([4], 0), ([15 / 4], 0)]"
  by (simp add: run_defs)

lemma run_c:
  "map (\<lambda>st. (params st, current_value st))
     (optimizer_trace patient_config never square_metric
        (init_optimizer square_metric [0] unit_scales))
   = [([0], 0)]"
  by (simp add: run_defs)

lemma run_d:
  "map (\<lambda>st. (params st, current_gradient st))
     (optimizer_trace patient_config never nan_metric
        (init_optimizer nan_metric [4] unit_scales))
   = [([4], Not_finite)]"
  by (simp add: run_defs)

lemma run_e:
  "map (\<lambda>st. (params st, current_value st))
     (optimizer_trace patient_config after_one square_metric
        (init_optimizer square_metric [4] unit_scales))
   = [([4], 16), ([2], 4)]"
  by (simp add: run_defs)


text \<open>
  The amended claim in these runs: each run ends in the state and for the reason named,
  before the maximum iteration count is reached in the runs (b) to (e).
\<close>

theorem gradient_descent_update_and_stop_witness:
  "(let tr = optimizer_trace toy_optimizer_config never square_metric
               (init_optimizer square_metric [4] unit_scales)
    in map params tr = [[4], [2], [1]] \<and> max_iterations toy_optimizer_config \<le> 2)
   \<and> (let tr = optimizer_trace patient_config never flat_metric
                  (init_optimizer flat_metric [4] unit_scales)
       in map params tr = [[4], [15 / 4]]
        \<and> \<not> max_iterations patient_config \<le> 1
        \<and> convergence_window patient_config = 1
        \<and> \<not> convergence_tolerance patient_config
               < current_value (tr ! 0) - current_value (tr ! 1))
   \<and> (let tr = optimizer_trace patient_config never square_metric
                  (init_optimizer square_metric [0] unit_scales)
       in map params tr = [[0]]
        \<and> \<not> max_iterations patient_config \<le> 0
        \<and> (\<exists>g. current_gradient (tr ! 0) = Gradient g
              \<and> sqrt (\<Sum>k\<leftarrow>[0..<length [0::real]]. (unit_scales k * g k)\<^sup>2)
                  < gradient_tolerance patient_config))
   \<and> (let tr = optimizer_trace patient_config never nan_metric
                  (init_optimizer nan_metric [4] unit_scales)
       in map params tr = [[4]]
        \<and> \<not> max_iterations patient_config \<le> 0
        \<and> current_gradient (tr ! 0) = Not_finite)
   \<and> (let tr = optimizer_trace patient_config after_one square_metric
                  (init_optimizer square_metric [4] unit_scales)
       in map params tr = [[4], [2]]
        \<and> \<not> max_iterations patient_config \<le> 1
        \<and> after_one 1)"
proof -
  let ?a = "optimizer_trace toy_optimizer_config never square_metric
              (init_optimizer square_metric [4] unit_scales)"
  let ?b = "optimizer_trace patient_config never flat_metric
              (init_optimizer flat_metric [4] unit_scales)"
  let ?c = "optimizer_trace patient_config never square_metric
              (init_optimizer square_metric [0] unit_scales)"
  let ?d = "optimizer_trace patient_config never nan_metric
              (init_optimizer nan_metric [4] unit_scales)"
  let ?e = "optimizer_trace patient_config after_one square_metric
              (init_optimizer square_metric [4] unit_scales)"
  have pa: "map params ?a = [[4], [2], [1]]" and pb: "map params ?b = [[4], [15 / 4]]"
    and pc: "map params ?c = [[0]]" and pd: "map params ?d = [[4]]"
    and pe: "map params ?e = [[4], [2]]"
    by (simp_all add: run_defs)
  have la: "length ?a = 3" using arg_cong[OF pa, of length] by simp
  have lb: "length ?b = 2" using arg_cong[OF pb, of length] by simp
  have lc: "length ?c = 1" using arg_cong[OF pc, of length] by simp
  have ld: "length ?d = 1" using arg_cong[OF pd, of length] by simp
  have le: "length ?e = 2" using arg_cong[OF pe, of length] by simp
  note A = gradient_descent_update_and_stop[of toy_optimizer_config never square_metric "[4]"
      unit_scales, unfolded Let_def, THEN conjunct2, THEN conjunct2, rule_format, of 2]
  note B = gradient_descent_update_and_stop[of patient_config never flat_metric "[4]"
      unit_scales, unfolded Let_def, THEN conjunct2, THEN conjunct2, rule_format, of 1]
  note C = gradient_descent_update_and_stop[of patient_config never square_metric "[0]"
      unit_scales, unfolded Let_def, THEN conjunct2, THEN conjunct2, rule_format, of 0]
  note D = gradient_descent_update_and_stop[of patient_config never nan_metric "[4]"
      unit_scales, unfolded Let_def, THEN conjunct2, THEN conjunct2, rule_format, of 0]
  note E = gradient_descent_update_and_stop[of patient_config after_one square_metric "[4]"
      unit_scales, unfolded Let_def, THEN conjunct2, THEN conjunct2, rule_format, of 1]
  have ga: "current_gradient (?a ! 2) = Gradient (\<lambda>i. 2 * [1] ! i)"
    by (simp add: run_defs)
  have a: "max_iterations toy_optimizer_config \<le> 2"
    using A la ga by (simp add: never_def toy_optimizer_config_def)
  have gb: "current_gradient (?b ! 1) = Gradient (\<lambda>i. 1)"
    by (simp add: run_defs)
  have b: "\<not> max_iterations patient_config \<le> 1" "convergence_window patient_config = 1"
    "\<not> convergence_tolerance patient_config
               < current_value (?b ! 0) - current_value (?b ! 1)"
    using B lb gb by (simp_all add: never_def patient_config_def unit_scales_def sqrt_less_pos)
  have gc: "current_gradient (?c ! 0) = Gradient (\<lambda>i. 2 * [0] ! i)"
    by (simp add: run_defs)
  have c: "\<not> max_iterations patient_config \<le> 0"
    "\<exists>g. current_gradient (?c ! 0) = Gradient g
              \<and> sqrt (\<Sum>k\<leftarrow>[0..<length [0::real]]. (unit_scales k * g k)\<^sup>2)
                  < gradient_tolerance patient_config"
    using C lc gc by (simp_all add: never_def patient_config_def)
  have d: "current_gradient (?d ! 0) = Not_finite"
    using D ld by (simp add: never_def patient_config_def run_defs)
  have ge: "current_gradient (?e ! 1) = Gradient (\<lambda>i. 2 * [2] ! i)"
    "current_value (?e ! 0) = 16" "current_value (?e ! 1) = 4"
    by (simp_all add: run_defs)
  have e: "\<not> max_iterations patient_config \<le> 1" "after_one 1"
    using E le ge by (simp_all add: patient_config_def unit_scales_def sqrt_less_pos)
  show ?thesis
    unfolding Let_def using pa pb pc pd pe a b c d e by simp
qed

section \<open>C6: the levels of the multi-resolution driver\<close>


















end
